(* ===== verification/Prelude.thy ===== *)
theory Prelude
  imports Main
begin

text \<open>
  Shared vocabulary of the development: the named collections of simplification
  rules that the component theories fill, and generic facts on lists, counting and
  association lists that several components use.
\<close>

named_theorems pydict_simps "characteristic equations of the Python dict model"
named_theorems agg_simps "characteristic equations of the aggregation loop"

text \<open>The elements of a list in the order of their first occurrence (\<open>remdups\<close> keeps the
  last one).\<close>

definition first_occ :: "'a list \<Rightarrow> 'a list" where
  "first_occ xs = rev (remdups (rev xs))"

subsection \<open>First occurrences\<close>

lemma first_occ_Nil [simp]: "first_occ [] = []"
  by (simp add: first_occ_def)

lemma first_occ_snoc:
  "first_occ (xs @ [x]) = (if x \<in> set xs then first_occ xs else first_occ xs @ [x])"
  by (simp add: first_occ_def)

lemma first_occ_distinct: "distinct xs \<Longrightarrow> first_occ xs = xs"
  by (simp add: first_occ_def distinct_remdups_id)

lemma first_occ_append_first_occ: "first_occ (first_occ xs @ ys) = first_occ (xs @ ys)"
  by (simp add: first_occ_def remdups_append2)

lemma set_first_occ [simp]: "set (first_occ xs) = set xs"
  by (simp add: first_occ_def)

lemma distinct_first_occ [simp]: "distinct (first_occ xs)"
  by (simp add: first_occ_def)

subsection \<open>Counting in lists\<close>

text \<open>
  In a list of pairs whose first components are distinct, one key occurs with at
  most one second component, so two different pairs with that key cannot both occur.
\<close>

lemma count_list_distinct_fst:
  assumes "distinct (map fst kvs)"
  shows "count_list kvs (k, a) \<le> 1"
  using assms by (induction kvs) (auto simp: count_list_0_iff image_iff)

lemma count_list_distinct_fst_pair:
  assumes "distinct (map fst kvs)" and "a \<noteq> b"
  shows "count_list kvs (k, a) + count_list kvs (k, b) \<le> 1"
  using assms by (induction kvs) (auto simp: count_list_0_iff image_iff)

lemma sum_list_map_le_length:
  assumes "\<And>x. x \<in> set xs \<Longrightarrow> f x \<le> (1::nat)"
  shows "sum_list (map f xs) \<le> length xs"
  using assms
proof (induction xs)
  case (Cons a xs)
  then have "f a \<le> 1" and "sum_list (map f xs) \<le> length xs" by auto
  then show ?case by simp
qed simp

end
