(* ===== verification/PyDict.thy ===== *)
theory PyDict
  imports Prelude
begin

text \<open>
  A Python \<open>dict\<close> as the scripts use it: an insertion-ordered list of entries, where
  a key is found by Python equality. Python equality is given as a normalising
  function \<open>nk\<close>: two keys are the same key when their images agree (the identity
  for the \<open>str\<close> keys of \<open>feature_counts\<close>, \<open>py_key\<close> for the document ids of
  \<open>server_env_id_to_flags\<close>). Assigning to a present key keeps the stored key object
  and its position and replaces the value; a new key is appended. The abstraction
  \<open>pd_abs\<close> maps a dict to the HOL map from key classes to values, and the lemmas show
  that each operation refines the corresponding map operation.
\<close>

type_synonym ('k, 'v) pydict = "('k \<times> 'v) list"

text \<open>\<open>k in d\<close> / \<open>d[k]\<close> on a hashable key: the value stored under an equal key.\<close>

fun pd_lookup :: "('k \<Rightarrow> 'n) \<Rightarrow> ('k, 'v) pydict \<Rightarrow> 'k \<Rightarrow> 'v option" where
  "pd_lookup nk [] k = None"
| "pd_lookup nk ((k', v) # d) k = (if nk k' = nk k then Some v else pd_lookup nk d k)"

text \<open>\<open>d.get(k, default)\<close>.\<close>

definition pd_get :: "('k \<Rightarrow> 'n) \<Rightarrow> ('k, 'v) pydict \<Rightarrow> 'k \<Rightarrow> 'v \<Rightarrow> 'v" where
  "pd_get nk d k dflt = (case pd_lookup nk d k of None \<Rightarrow> dflt | Some v \<Rightarrow> v)"

text \<open>\<open>d[k] = v\<close>.\<close>

fun pd_setitem :: "('k \<Rightarrow> 'n) \<Rightarrow> ('k, 'v) pydict \<Rightarrow> 'k \<Rightarrow> 'v \<Rightarrow> ('k, 'v) pydict" where
  "pd_setitem nk [] k v = [(k, v)]"
| "pd_setitem nk ((k', v') # d) k v =
     (if nk k' = nk k then (k', v) # d else (k', v') # pd_setitem nk d k v)"

text \<open>Invariant of every dict: no two stored keys are equal.\<close>

definition pd_wf :: "('k \<Rightarrow> 'n) \<Rightarrow> ('k, 'v) pydict \<Rightarrow> bool" where
  "pd_wf nk d \<longleftrightarrow> distinct (map (nk \<circ> fst) d)"

text \<open>Abstraction to a map on key classes.\<close>

definition pd_abs :: "('k \<Rightarrow> 'n) \<Rightarrow> ('k, 'v) pydict \<Rightarrow> 'n \<rightharpoonup> 'v" where
  "pd_abs nk d = map_of (map (\<lambda>(k, v). (nk k, v)) d)"

subsection \<open>Lookup and update\<close>

lemma pd_lookup_abs [pydict_simps]: "pd_lookup nk d k = pd_abs nk d (nk k)"
  by (induction d) (auto simp: pd_abs_def)

lemma pd_get_Nil [simp, pydict_simps]: "pd_get nk [] k dflt = dflt"
  by (simp add: pd_get_def)

lemma pd_get_Cons [simp, pydict_simps]:
  "pd_get nk ((k', v) # d) k dflt = (if nk k' = nk k then v else pd_get nk d k dflt)"
  by (simp add: pd_get_def)

lemma pd_get_cases: "pd_get nk d k dflt = dflt \<or> pd_get nk d k dflt \<in> snd ` set d"
  by (induction d) (simp, force)

lemma pd_setitem_values: "x \<in> set (pd_setitem nk d k v) \<Longrightarrow> snd x = v \<or> x \<in> set d"
  by (induction d) (auto split: if_splits)

lemma pd_abs_setitem [pydict_simps]:
  "pd_abs nk (pd_setitem nk d k v) = (pd_abs nk d)(nk k \<mapsto> v)"
  by (induction d) (auto simp: pd_abs_def fun_eq_iff)

lemma pd_get_setitem [pydict_simps]:
  "pd_get nk (pd_setitem nk d k v) k' dflt = (if nk k = nk k' then v else pd_get nk d k' dflt)"
  by (simp add: pd_get_def pd_lookup_abs pd_abs_setitem)

lemma pd_keys_setitem:
  "map (nk \<circ> fst) (pd_setitem nk d k v) =
     (if nk k \<in> set (map (nk \<circ> fst) d) then map (nk \<circ> fst) d else map (nk \<circ> fst) d @ [nk k])"
  by (induction d) (auto, force)

lemma map_fst_pd_setitem:
  "map fst (pd_setitem nk d k v) = (if nk k \<in> nk ` fst ` set d then map fst d else map fst d @ [k])"
  by (induction d) (auto, force)

lemma dom_pd_abs: "dom (pd_abs nk d) = set (map (nk \<circ> fst) d)"
  by (auto simp: pd_abs_def dom_map_of_conv_image_fst image_image split_beta)

subsection \<open>The invariant and the size of a dict\<close>

lemma pd_wf_Nil [simp]: "pd_wf nk []"
  by (simp add: pd_wf_def)

lemma pd_wf_setitem:
  "pd_wf nk d \<Longrightarrow> pd_wf nk (pd_setitem nk d k v)"
  by (auto simp: pd_wf_def pd_keys_setitem)

lemma length_pd_setitem:
  "length (pd_setitem nk d k v) = (if nk k \<in> set (map (nk \<circ> fst) d) then length d else Suc (length d))"
  by (induction d) (auto, force)

lemma pd_wf_length_card:
  "pd_wf nk d \<Longrightarrow> length d = card (dom (pd_abs nk d))"
  by (metis dom_pd_abs distinct_card length_map pd_wf_def)

lemma pd_lookup_key_present: "k \<in> set (map fst d) \<Longrightarrow> pd_lookup nk d k \<noteq> None"
  by (induction d) (auto, force)

end
