(* ===== verification/Bson.thy ===== *)
theory Bson
  imports Prelude
begin

text \<open>
  The values the scripts read from MongoDB, as pymongo hands them to Python: BSON
  documents decoded into dicts whose field values are \<open>None\<close>, booleans, integers,
  strings, ObjectIds, lists or nested dicts. A document is the association list of
  its fields in stored order. This theory holds the value type, Python's
  \<open>dict.get\<close> on a decoded document, Python's key equality (\<open>True == 1\<close>) and
  hashability, which the dictionaries of the scripts depend on, and the
  shape predicates \<open>isinstance(v, bool)\<close> and \<open>isinstance(v, dict)\<close> of
  \<^verbatim>\<open>src/PROD-CZFeaturesFlagsScript.py\<close> lines 93 and 99.
\<close>

datatype bval =
    BNull
  | BBool bool
  | BInt int
  | BStr string
  | BOid nat
  | BArr "bval list"
  | BDoc "(string \<times> bval) list"

type_synonym doc = "(string \<times> bval) list"

text \<open>\<open>d.get(k, default)\<close> on a decoded document.\<close>

definition doc_get :: "doc \<Rightarrow> string \<Rightarrow> bval \<Rightarrow> bval" where
  "doc_get d k dflt = (case map_of d k of None \<Rightarrow> dflt | Some v \<Rightarrow> v)"

text \<open>
  Python hashes lists and dicts not at all (\<open>TypeError: unhashable type\<close>); every
  other value that can come out of a document is hashable.
\<close>

fun py_hashable :: "bval \<Rightarrow> bool" where
  "py_hashable (BArr _) = False"
| "py_hashable (BDoc _) = False"
| "py_hashable _ = True"

text \<open>
  Two hashable keys are the same dict key when they are equal in Python: \<open>bool\<close> is a
  subclass of \<open>int\<close>, so \<open>True == 1\<close> and \<open>False == 0\<close> with equal hashes. The
  class of a key is its \<open>py_key\<close>.
\<close>

fun py_key :: "bval \<Rightarrow> bval" where
  "py_key (BBool b) = BInt (if b then 1 else 0)"
| "py_key v = v"

text \<open>\<open>isinstance(v, bool)\<close>.\<close>

fun is_bool :: "bval \<Rightarrow> bool" where
  "is_bool (BBool _) = True"
| "is_bool _ = False"

text \<open>A decoded dict has pairwise distinct field names.\<close>

fun flags_ok :: "bval \<Rightarrow> bool" where
  "flags_ok (BDoc kvs) = distinct (map fst kvs)"
| "flags_ok _ = True"

lemma doc_get_Cons [simp]:
  "doc_get ((k', v) # d) k dflt = (if k' = k then v else doc_get d k dflt)"
  by (simp add: doc_get_def)

lemma doc_get_Nil [simp]: "doc_get [] k dflt = dflt"
  by (simp add: doc_get_def)

text \<open>On a document with distinct field names, reading the first field of a name is reading
  the last, which is what the dict pymongo decodes holds.\<close>

lemma doc_get_last:
  "distinct (map fst d) \<Longrightarrow> doc_get d k dflt = (case map_of (rev d) k of None \<Rightarrow> dflt | Some v \<Rightarrow> v)"
proof (induction d)
  case (Cons kv d)
  obtain k' v where kv: "kv = (k', v)" by fastforce
  from Cons.prems kv have d: "distinct (map fst d)" and n: "map_of (rev d) k' = None"
    by (simp_all add: map_of_eq_None_iff)
  from Cons.IH[OF d] n show ?case
    by (cases "k' = k") (simp_all add: kv map_of_append map_add_def split: option.split)
qed simp

lemma py_key_hashable [simp]: "py_hashable (py_key v) = py_hashable v"
  by (cases v) simp_all

lemma py_key_idem [simp]: "py_key (py_key v) = py_key v"
  by (cases v) simp_all

end
