(* ===== verification/Store.thy ===== *)
theory Store
  imports Bson
begin

text \<open>
  The document store as the scripts see it through pymongo: the two \<open>find\<close> calls
  (\<^verbatim>\<open>src/PROD-CZFeaturesFlagsScript.py\<close> lines 54 and 72--78), their projections,
  the MongoDB matching rules the site filter is evaluated with, and a cursor that
  may raise after delivering a prefix of its result. The exceptions a pymongo call
  can raise are the classes the scripts distinguish in their \<open>except\<close> clauses.
\<close>

datatype exc = ConnectionFailure | OperationFailure | TypeError | OtherError

text \<open>
  A cursor consumed by a \<open>for\<close> loop: the documents it yields, and the exception it
  raises after the last of them (a failed \<open>getMore\<close>, a lost connection), if any.
\<close>

record cursor =
  cur_docs :: "doc list"
  cur_fail :: "exc option"

text \<open>A query result delivered in full, or cut after \<open>n\<close> documents by exception \<open>e\<close>.\<close>

definition open_cursor :: "doc list \<Rightarrow> (nat \<times> exc) option \<Rightarrow> cursor" where
  "open_cursor res fault =
     (case fault of
        None \<Rightarrow> \<lparr>cur_docs = res, cur_fail = None\<rparr>
      | Some (n, e) \<Rightarrow> \<lparr>cur_docs = take n res, cur_fail = Some e\<rparr>)"

text \<open>A projection \<open>{"_id": 1, f: 1, ...}\<close> keeps \<open>_id\<close> and the named fields.\<close>

definition project :: "string list \<Rightarrow> doc \<Rightarrow> doc" where
  "project fs d = filter (\<lambda>(k, _). k = ''_id'' \<or> k \<in> set fs) d"

text \<open>
  MongoDB's equality match of a field against a scalar \<open>c\<close>: a missing field equals
  \<open>null\<close>, and an array field matches when it equals \<open>c\<close> or one of its elements
  does. BSON booleans and integers are different types, so \<open>true\<close> never matches
  \<open>1\<close> (unlike Python).
\<close>

fun mongo_eq_match :: "bval option \<Rightarrow> bval \<Rightarrow> bool" where
  "mongo_eq_match None c = (c = BNull)"
| "mongo_eq_match (Some (BArr xs)) c = (BArr xs = c \<or> c \<in> set xs)"
| "mongo_eq_match (Some v) c = (v = c)"

text \<open>\<open>{f: {"$in": cs}}\<close> matches when the field equality-matches one of \<open>cs\<close>.\<close>

definition mongo_in_match :: "bval option \<Rightarrow> bval list \<Rightarrow> bool" where
  "mongo_in_match fv cs = list_ex (mongo_eq_match fv) cs"

text \<open>The filter of the site query, lines 73--76.\<close>

definition site_filter :: "string \<Rightarrow> bval list \<Rightarrow> doc \<Rightarrow> bool" where
  "site_filter ref ids d \<longleftrightarrow>
     mongo_in_match (map_of d ref) ids \<and> mongo_eq_match (map_of d ''disabled'') (BBool False)"

text \<open>\<open>site_collection.find({...}, {ref: 1, "FEATURES_FLAGS": 1})\<close>, lines 72--78.\<close>

definition find_sites :: "string \<Rightarrow> bval list \<Rightarrow> doc list \<Rightarrow> doc list" where
  "find_sites ref ids coll =
     map (project [ref, ''FEATURES_FLAGS'']) (filter (site_filter ref ids) coll)"

text \<open>\<open>collection.find({}, {"_id": 1, ff: 1})\<close>, line 54.\<close>

definition find_configs :: "string \<Rightarrow> doc list \<Rightarrow> doc list" where
  "find_configs ff coll = map (project [ff]) coll"

subsection \<open>Projection and matching\<close>

lemma map_of_filter_key:
  "map_of (filter (\<lambda>(k, _). P k) d) k = (if P k then map_of d k else None)"
  by (induction d) auto

lemma doc_get_project [simp]:
  "k = ''_id'' \<or> k \<in> set fs \<Longrightarrow> doc_get (project fs d) k dflt = doc_get d k dflt"
  by (simp add: project_def doc_get_def map_of_filter_key)

lemma cur_docs_open_cursor: "cur_docs (open_cursor res fault) = take (case fault of None \<Rightarrow> length res | Some (n, _) \<Rightarrow> n) res"
  by (simp add: open_cursor_def split: option.splits)

text \<open>
  A matched site whose reference value is hashable carries one of the queried ids
  (\<open>None\<close>, the value of a missing field, when \<open>null\<close> was queried).
\<close>

lemma site_filter_ref_in_ids:
  assumes "site_filter ref ids d" and "py_hashable (doc_get d ref BNull)"
  shows "doc_get d ref BNull \<in> set ids"
proof (cases "map_of d ref")
  case None
  with assms(1) show ?thesis
    by (auto simp: site_filter_def mongo_in_match_def list_ex_iff doc_get_def)
next
  case (Some v)
  with assms show ?thesis
    by (cases v) (auto simp: site_filter_def mongo_in_match_def list_ex_iff doc_get_def)
qed

text \<open>C19: the site query matches only sites whose \<open>disabled\<close> field is false or an array holding false;
  a site without the field is not matched.\<close>

theorem site_filter_disabled:
  "site_filter ref ids s \<Longrightarrow>
     map_of s ''disabled'' = Some (BBool False) \<or>
     (\<exists>xs. map_of s ''disabled'' = Some (BArr xs) \<and> BBool False \<in> set xs)"
  by (cases "map_of s ''disabled''" rule: option.exhaust)
     (auto simp: site_filter_def elim: mongo_eq_match.elims)

subsection \<open>Witnesses\<close>

theorem site_filter_disabled_witness:
  "map_of [(''ref'', BStr ''e1''), (''disabled'', BBool False)] ''disabled'' = Some (BBool False)"
proof -
  have "site_filter ''ref'' [BStr ''e1''] [(''ref'', BStr ''e1''), (''disabled'', BBool False)]"
    by (simp add: site_filter_def mongo_in_match_def)
  from site_filter_disabled[OF this] show ?thesis by simp
qed

end
