(* ===== verification/Lookup.thy ===== *)
theory Lookup
  imports PyDict Store
begin

text \<open>
  The lookup builder, lines 54--63 of \<^verbatim>\<open>src/PROD-CZFeaturesFlagsScript.py\<close>: the
  loop over the configuration cursor that fills \<open>server_env_id_to_flags\<close>
  (\<open>platform_server_api_id_to_flags\<close> in the WT script) with
  \<open>doc.get('_id') \<mapsto> doc.get(flags_field, {})\<close>. The dict is the Python dict of
  theory PyDict keyed by Python equality on ids (\<open>py_key\<close>); an unhashable id
  raises \<open>TypeError\<close> at the assignment. The abstract specification
  \<open>lookup_spec\<close> is the map "last configuration document with this id wins".
\<close>

type_synonym lookup = "(bval, bval) pydict"

abbreviation doc_id :: "doc \<Rightarrow> bval" where
  "doc_id d \<equiv> doc_get d ''_id'' BNull"

abbreviation doc_flags :: "string \<Rightarrow> doc \<Rightarrow> bval" where
  "doc_flags ff d \<equiv> doc_get d ff (BDoc [])"

fun build_lookup :: "string \<Rightarrow> lookup \<Rightarrow> doc list \<Rightarrow> exc + lookup" where
  "build_lookup ff m [] = Inr m"
| "build_lookup ff m (d # ds) =
     (let i = doc_id d; fl = doc_flags ff d in
      if py_hashable i then build_lookup ff (pd_setitem py_key m i fl) ds else Inl TypeError)"

text \<open>The whole \<open>for\<close> loop: the cursor's exception, if any, after its documents.\<close>

definition read_lookup :: "string \<Rightarrow> cursor \<Rightarrow> exc + lookup" where
  "read_lookup ff cur =
     (case build_lookup ff [] (cur_docs cur) of
        Inl e \<Rightarrow> Inl e
      | Inr m \<Rightarrow> (case cur_fail cur of None \<Rightarrow> Inr m | Some e \<Rightarrow> Inl e))"

text \<open>Specification: each id class maps to the flags of its last document.\<close>

definition lookup_spec :: "string \<Rightarrow> doc list \<Rightarrow> bval \<rightharpoonup> bval" where
  "lookup_spec ff ds = map_of (rev (map (\<lambda>d. (py_key (doc_id d), doc_flags ff d)) ds))"

definition ids_hashable :: "doc list \<Rightarrow> bool" where
  "ids_hashable ds \<longleftrightarrow> list_all (\<lambda>d. py_hashable (doc_id d)) ds"

subsection \<open>Behaviour of the loop\<close>

lemma read_lookup_Inr:
  "read_lookup ff cur = Inr m \<longleftrightarrow> cur_fail cur = None \<and> build_lookup ff [] (cur_docs cur) = Inr m"
  by (auto simp: read_lookup_def split: sum.splits option.splits)

lemma build_lookup_Inr_iff:
  "(\<exists>m'. build_lookup ff m ds = Inr m') \<longleftrightarrow> ids_hashable ds"
  by (induction ds arbitrary: m) (auto simp: ids_hashable_def Let_def)

lemma build_lookup_Inl:
  "build_lookup ff m ds = Inl e \<Longrightarrow> e = TypeError"
  by (induction ds arbitrary: m) (auto simp: Let_def split: if_splits)

lemma build_lookup_wf:
  "build_lookup ff m ds = Inr m' \<Longrightarrow> pd_wf py_key m \<Longrightarrow> pd_wf py_key m'"
  by (induction ds arbitrary: m) (auto simp: Let_def pd_wf_setitem split: if_splits)

lemma build_lookup_abs:
  "build_lookup ff m ds = Inr m' \<Longrightarrow>
     pd_abs py_key m' = pd_abs py_key m ++ lookup_spec ff ds"
proof (induction ds arbitrary: m)
  case Nil
  then show ?case by (simp add: lookup_spec_def)
next
  case (Cons d ds)
  then have "build_lookup ff (pd_setitem py_key m (doc_id d) (doc_flags ff d)) ds = Inr m'"
    by (simp add: Let_def split: if_splits)
  then have "pd_abs py_key m' = (pd_abs py_key m)(py_key (doc_id d) \<mapsto> doc_flags ff d) ++ lookup_spec ff ds"
    by (simp only: Cons.IH pd_abs_setitem)
  then show ?case by (simp add: lookup_spec_def map_add_upd_left map_add_assoc[symmetric])
qed

lemma build_lookup_values:
  "build_lookup ff m ds = Inr m' \<Longrightarrow> list_all (P \<circ> snd) m \<Longrightarrow>
     list_all (\<lambda>d. P (doc_flags ff d)) ds \<Longrightarrow> list_all (P \<circ> snd) m'"
proof (induction ds arbitrary: m)
  case (Cons d ds)
  let ?m1 = "pd_setitem py_key m (doc_id d) (doc_flags ff d)"
  from Cons.prems(1) have step: "build_lookup ff ?m1 ds = Inr m'"
    by (simp add: Let_def split: if_splits)
  from Cons.prems(2,3) have "list_all (P \<circ> snd) ?m1"
    by (auto simp: list_all_iff dest!: pd_setitem_values)
  with step Cons.prems(3) show ?case by (intro Cons.IH) (simp_all add: comp_def)
qed simp

lemma dom_lookup_spec: "dom (lookup_spec ff ds) = py_key ` doc_id ` set ds"
  by (force simp: lookup_spec_def dom_map_of_conv_image_fst)

lemma build_lookup_dom:
  "build_lookup ff m ds = Inr m' \<Longrightarrow>
     dom (pd_abs py_key m') = dom (pd_abs py_key m) \<union> py_key ` doc_id ` set ds"
  by (simp add: build_lookup_abs dom_lookup_spec Un_commute)

text \<open>C10: a lookup read from a cursor is a dict whose map is the last-write-wins map of the documents.\<close>

theorem read_lookup_refines:
  "read_lookup ff cur = Inr m \<Longrightarrow> pd_wf py_key m \<and> pd_abs py_key m = lookup_spec ff (cur_docs cur)"
  by (auto simp: read_lookup_Inr pd_abs_def dest: build_lookup_wf build_lookup_abs)

text \<open>C11: with ids pairwise different under Python equality, the lookup has one entry per document.\<close>

theorem read_lookup_size:
  assumes "read_lookup ff cur = Inr m" and "distinct (map (py_key \<circ> doc_id) (cur_docs cur))"
  shows "length m = length (cur_docs cur)"
proof -
  from assms(1) have b: "build_lookup ff [] (cur_docs cur) = Inr m"
    by (simp add: read_lookup_Inr)
  have "length m = card (dom (pd_abs py_key m))"
    using build_lookup_wf[OF b] by (simp add: pd_wf_length_card)
  also have "\<dots> = card (py_key ` doc_id ` set (cur_docs cur))"
    using build_lookup_dom[OF b] by (simp add: pd_abs_def)
  also have "\<dots> = length (cur_docs cur)"
    using assms(2) distinct_card[of "map (py_key \<circ> doc_id) (cur_docs cur)"] by (simp add: image_image)
  finally show ?thesis .
qed

text \<open>C12: reading the lookup fails exactly with a TypeError on an unhashable id, or with the cursor's exception.\<close>

theorem read_lookup_error:
  "read_lookup ff cur = Inl e \<longleftrightarrow>
     (\<not> ids_hashable (cur_docs cur) \<and> e = TypeError) \<or>
     (ids_hashable (cur_docs cur) \<and> cur_fail cur = Some e)"
proof (cases "ids_hashable (cur_docs cur)")
  case True
  then obtain m where "build_lookup ff [] (cur_docs cur) = Inr m"
    using build_lookup_Inr_iff by blast
  with True show ?thesis by (simp add: read_lookup_def split: option.splits)
next
  case False
  then obtain e' where "build_lookup ff [] (cur_docs cur) = Inl e'"
    using build_lookup_Inr_iff by (metis sumE)
  with False build_lookup_Inl show ?thesis by (auto simp: read_lookup_def)
qed

subsection \<open>Witnesses\<close>

theorem read_lookup_refines_witness:
  "pd_wf py_key [(BStr ''e1'', BDoc [])] \<and>
   pd_abs py_key [(BStr ''e1'', BDoc [])] =
     lookup_spec ''FEATURES_FLAGS'' [[(''_id'', BStr ''e1'')]]"
proof -
  have "read_lookup ''FEATURES_FLAGS'' \<lparr>cur_docs = [[(''_id'', BStr ''e1'')]], cur_fail = None\<rparr> =
        Inr [(BStr ''e1'', BDoc [])]"
    by (simp add: read_lookup_def)
  from read_lookup_refines[OF this] show ?thesis by simp
qed

theorem read_lookup_size_witness:
  "\<exists>m. read_lookup ''FEATURES_FLAGS''
      \<lparr>cur_docs = [[(''_id'', BStr ''e1'')], [(''_id'', BOid 7), (''FEATURES_FLAGS'', BNull)]], cur_fail = None\<rparr> = Inr m
    \<and> length m = 2"
proof -
  obtain m where r: "read_lookup ''FEATURES_FLAGS''
      \<lparr>cur_docs = [[(''_id'', BStr ''e1'')], [(''_id'', BOid 7), (''FEATURES_FLAGS'', BNull)]], cur_fail = None\<rparr> = Inr m"
    by (simp add: read_lookup_def)
  have d: "distinct (map (py_key \<circ> doc_id)
      (cur_docs \<lparr>cur_docs = [[(''_id'', BStr ''e1'')], [(''_id'', BOid 7), (''FEATURES_FLAGS'', BNull)]], cur_fail = None\<rparr>))"
    by simp
  from read_lookup_size[OF r d] r show ?thesis by auto
qed

theorem read_lookup_error_witness:
  "read_lookup ''FEATURES_FLAGS'' \<lparr>cur_docs = [[(''_id'', BDoc [])]], cur_fail = None\<rparr> = Inl TypeError"
  using read_lookup_error[of "''FEATURES_FLAGS''" "\<lparr>cur_docs = [[(''_id'', BDoc [])]], cur_fail = None\<rparr>" TypeError]
  by (simp add: ids_hashable_def)

end
