(* ===== verification/Aggregate.thy ===== *)
theory Aggregate
  imports Lookup
begin

text \<open>
  The join-and-aggregate loop, lines 80--106 of
  \<^verbatim>\<open>src/PROD-CZFeaturesFlagsScript.py\<close> (the same lines of the WT script): for each
  site the cursor yields, \<open>disabled_false_count\<close> is incremented, the site's
  reference id is looked up in the configuration lookup (default \<open>{}\<close>), a value
  that is not a dict is skipped with a warning, and each boolean flag of the dict
  increments \<open>feature_counts[flag]["true"]\<close> or \<open>["false"]\<close> of a
  \<open>defaultdict\<close>; a non-boolean flag is skipped with a warning. The printed warnings
  are kept in the state as values. The abstract specification counts, over the sites,
  the occurrences of \<open>(flag, True)\<close> and \<open>(flag, False)\<close> in each site's flag dict.
\<close>

record counts =
  n_true :: nat
  n_false :: nat

text \<open>The \<open>defaultdict\<close> factory \<open>lambda: {"true": 0, "false": 0}\<close>, line 82.\<close>

definition zero_counts :: counts where
  "zero_counts = \<lparr>n_true = 0, n_false = 0\<rparr>"

datatype warning = Flags_not_dict bval | Flag_not_bool string bval

record agg =
  disabled_false_count :: nat
  feature_counts :: "(string, counts) pydict"
  warnings :: "warning list"

definition agg_init :: agg where
  "agg_init = \<lparr>disabled_false_count = 0, feature_counts = [], warnings = []\<rparr>"

text \<open>\<open>feature_counts[feature]["true" if value else "false"] += 1\<close>, lines 100--103.\<close>

definition count_flag :: "bool \<Rightarrow> counts \<Rightarrow> counts" where
  "count_flag b c = (if b then c\<lparr>n_true := Suc (n_true c)\<rparr> else c\<lparr>n_false := Suc (n_false c)\<rparr>)"

text \<open>The tally a flag reads in \<open>feature_counts\<close>, zero when absent.\<close>

definition tally :: "agg \<Rightarrow> string \<Rightarrow> counts" where
  "tally st f = pd_get id (feature_counts st) f zero_counts"

text \<open>One iteration of the inner loop over \<open>features_flags.items()\<close>, lines 99--106.\<close>

fun count_feature :: "bval \<Rightarrow> agg \<Rightarrow> string \<times> bval \<Rightarrow> agg" where
  "count_feature sid st (f, v) =
     (case v of
        BBool b \<Rightarrow> st\<lparr>feature_counts := pd_setitem id (feature_counts st) f (count_flag b (tally st f))\<rparr>
      | _ \<Rightarrow> st\<lparr>warnings := warnings st @ [Flag_not_bool f sid]\<rparr>)"

text \<open>The inner loop, line 98.\<close>

fun count_features :: "bval \<Rightarrow> agg \<Rightarrow> doc \<Rightarrow> agg" where
  "count_features sid st [] = st"
| "count_features sid st (kv # kvs) = count_features sid (count_feature sid st kv) kvs"

text \<open>The body of the outer loop for one site, lines 86--106.\<close>

definition process_site :: "string \<Rightarrow> lookup \<Rightarrow> agg \<Rightarrow> doc \<Rightarrow> exc + agg" where
  "process_site ref lk st site =
     (let st1 = st\<lparr>disabled_false_count := Suc (disabled_false_count st)\<rparr>;
          sid = doc_get site ref BNull in
      if \<not> py_hashable sid then Inl TypeError
      else (case pd_get py_key lk sid (BDoc []) of
              BDoc kvs \<Rightarrow> Inr (count_features sid st1 kvs)
            | _ \<Rightarrow> Inr (st1\<lparr>warnings := warnings st1 @ [Flags_not_dict sid]\<rparr>)))"

fun process_sites :: "string \<Rightarrow> lookup \<Rightarrow> agg \<Rightarrow> doc list \<Rightarrow> exc + agg" where
  "process_sites ref lk st [] = Inr st"
| "process_sites ref lk st (s # ss) =
     (case process_site ref lk st s of Inl e \<Rightarrow> Inl e | Inr st' \<Rightarrow> process_sites ref lk st' ss)"

text \<open>The whole loop over the site cursor, from the initial counters of lines 81--82.\<close>

definition aggregate :: "string \<Rightarrow> lookup \<Rightarrow> cursor \<Rightarrow> exc + agg" where
  "aggregate ref lk cur =
     (case process_sites ref lk agg_init (cur_docs cur) of
        Inl e \<Rightarrow> Inl e
      | Inr st \<Rightarrow> (case cur_fail cur of None \<Rightarrow> Inr st | Some e \<Rightarrow> Inl e))"

subsection \<open>Abstract specification\<close>

definition site_ref :: "string \<Rightarrow> doc \<Rightarrow> bval" where
  "site_ref ref s = doc_get s ref BNull"

definition site_flags :: "string \<Rightarrow> lookup \<Rightarrow> doc \<Rightarrow> bval" where
  "site_flags ref lk s = pd_get py_key lk (site_ref ref s) (BDoc [])"

fun flag_occ :: "bval \<Rightarrow> string \<Rightarrow> bool \<Rightarrow> nat" where
  "flag_occ (BDoc kvs) f b = count_list kvs (f, BBool b)"
| "flag_occ _ f b = 0"

definition votes :: "string \<Rightarrow> lookup \<Rightarrow> doc list \<Rightarrow> string \<Rightarrow> bool \<Rightarrow> nat" where
  "votes ref lk ss f b = sum_list (map (\<lambda>s. flag_occ (site_flags ref lk s) f b) ss)"

text \<open>The warnings one site produces: one per non-boolean flag, or one for a non-dict.\<close>

definition site_warnings :: "string \<Rightarrow> lookup \<Rightarrow> doc \<Rightarrow> warning list" where
  "site_warnings ref lk s =
     (case site_flags ref lk s of
        BDoc kvs \<Rightarrow> map (\<lambda>(f, _). Flag_not_bool f (site_ref ref s)) (filter (\<lambda>(_, v). \<not> is_bool v) kvs)
      | _ \<Rightarrow> [Flags_not_dict (site_ref ref s)])"

text \<open>The flag names one site gives a boolean value.\<close>

definition site_bool_flags :: "string \<Rightarrow> lookup \<Rightarrow> doc \<Rightarrow> string set" where
  "site_bool_flags ref lk s =
     (case site_flags ref lk s of BDoc kvs \<Rightarrow> fst ` set (filter (is_bool \<circ> snd) kvs) | _ \<Rightarrow> {})"

text \<open>The same flags as a list, in the order of the site's flag dict.\<close>

definition site_bool_flag_list :: "string \<Rightarrow> lookup \<Rightarrow> doc \<Rightarrow> string list" where
  "site_bool_flag_list ref lk s =
     (case site_flags ref lk s of BDoc kvs \<Rightarrow> map fst (filter (is_bool \<circ> snd) kvs) | _ \<Rightarrow> [])"

definition refs_hashable :: "string \<Rightarrow> doc list \<Rightarrow> bool" where
  "refs_hashable ref ss \<longleftrightarrow> list_all (\<lambda>s. py_hashable (site_ref ref s)) ss"


subsection \<open>One flag\<close>

lemma tally_setitem:
  "tally (st\<lparr>feature_counts := pd_setitem id (feature_counts st) f c\<rparr>) g = (if f = g then c else tally st g)"
  by (simp add: tally_def pd_get_setitem)

lemma tally_warnings_update [simp]: "tally (st\<lparr>warnings := w\<rparr>) = tally st"
  by (simp add: tally_def fun_eq_iff)

lemma tally_count_update [simp]: "tally (st\<lparr>disabled_false_count := n\<rparr>) = tally st"
  by (simp add: tally_def fun_eq_iff)

lemma count_feature_count [agg_simps]:
  "disabled_false_count (count_feature sid st kv) = disabled_false_count st"
  by (cases kv) (simp split: bval.split)

lemma count_feature_true [agg_simps]:
  "n_true (tally (count_feature sid st kv) f) = n_true (tally st f) + (if kv = (f, BBool True) then 1 else 0)"
  by (cases kv) (auto simp: tally_setitem count_flag_def split: bval.split)

lemma count_feature_false [agg_simps]:
  "n_false (tally (count_feature sid st kv) f) = n_false (tally st f) + (if kv = (f, BBool False) then 1 else 0)"
  by (cases kv) (auto simp: tally_setitem count_flag_def split: bval.split)

lemma count_feature_warnings [agg_simps]:
  "warnings (count_feature sid st kv) =
     warnings st @ (if is_bool (snd kv) then [] else [Flag_not_bool (fst kv) sid])"
  by (cases kv) (simp split: bval.split)

lemma fst_set_setitem_id: "fst ` set (pd_setitem id d k v) = insert k (fst ` set d)"
proof -
  have "fst ` set (pd_setitem id d k v) = set (map fst (pd_setitem id d k v))"
    by simp
  also have "\<dots> = insert k (set (map fst d))"
    by (cases "k \<in> fst ` set d") (simp_all add: map_fst_pd_setitem insert_absorb)
  finally show ?thesis by simp
qed

lemma count_feature_keys [agg_simps]:
  "fst ` set (feature_counts (count_feature sid st kv)) =
     fst ` set (feature_counts st) \<union> (if is_bool (snd kv) then {fst kv} else {})"
  by (cases kv) (auto simp: fst_set_setitem_id split: bval.split)

lemma count_feature_wf [agg_simps]:
  "pd_wf id (feature_counts st) \<Longrightarrow> pd_wf id (feature_counts (count_feature sid st kv))"
  by (cases kv) (auto simp: pd_wf_setitem split: bval.split)

lemma pd_wf_id: "pd_wf id d \<longleftrightarrow> distinct (map fst d)" "pd_wf (\<lambda>x. x) d \<longleftrightarrow> distinct (map fst d)"
  by (simp_all add: pd_wf_def comp_def)

lemma count_feature_key_list:
  "pd_wf id (feature_counts st) \<Longrightarrow>
     map fst (feature_counts (count_feature sid st kv)) =
       first_occ (map fst (feature_counts st) @ (if is_bool (snd kv) then [fst kv] else []))"
  by (cases kv)
     (auto simp: pd_wf_id first_occ_snoc first_occ_distinct map_fst_pd_setitem image_iff split: bval.split)

declare count_feature.simps [simp del]

subsection \<open>The inner loop\<close>

lemma count_features_count [agg_simps]:
  "disabled_false_count (count_features sid st kvs) = disabled_false_count st"
  by (induction kvs arbitrary: st) (simp_all add: agg_simps)

lemma count_features_true [agg_simps]:
  "n_true (tally (count_features sid st kvs) f) = n_true (tally st f) + count_list kvs (f, BBool True)"
  by (induction kvs arbitrary: st) (simp_all add: agg_simps)

lemma count_features_false [agg_simps]:
  "n_false (tally (count_features sid st kvs) f) = n_false (tally st f) + count_list kvs (f, BBool False)"
  by (induction kvs arbitrary: st) (simp_all add: agg_simps)

lemma count_features_warnings [agg_simps]:
  "warnings (count_features sid st kvs) =
     warnings st @ map (\<lambda>(f, _). Flag_not_bool f sid) (filter (\<lambda>(_, v). \<not> is_bool v) kvs)"
  by (induction kvs arbitrary: st) (auto simp: agg_simps)

lemma count_features_keys [agg_simps]:
  "fst ` set (feature_counts (count_features sid st kvs)) =
     fst ` set (feature_counts st) \<union> fst ` set (filter (is_bool \<circ> snd) kvs)"
  by (induction kvs arbitrary: st) (auto simp: agg_simps)

lemma count_features_wf [agg_simps]:
  "pd_wf id (feature_counts st) \<Longrightarrow> pd_wf id (feature_counts (count_features sid st kvs))"
  by (induction kvs arbitrary: st) (simp_all add: agg_simps)

lemma count_features_key_list:
  "pd_wf id (feature_counts st) \<Longrightarrow>
     map fst (feature_counts (count_features sid st kvs)) =
       first_occ (map fst (feature_counts st) @ map fst (filter (is_bool \<circ> snd) kvs))"
proof (induction kvs arbitrary: st)
  case Nil
  then show ?case by (simp add: pd_wf_id first_occ_distinct)
next
  case (Cons kv kvs)
  from Cons.IH[OF count_feature_wf[OF Cons.prems]] count_feature_key_list[OF Cons.prems, of sid kv]
  show ?case by (simp add: first_occ_append_first_occ)
qed

subsection \<open>One site\<close>

lemma process_site_Inl_iff:
  "process_site ref lk st s = Inl e \<longleftrightarrow> \<not> py_hashable (site_ref ref s) \<and> e = TypeError"
  by (auto simp: process_site_def site_ref_def Let_def split: bval.split)

lemma process_site_Inr_ex:
  "(\<exists>st'. process_site ref lk st s = Inr st') \<longleftrightarrow> py_hashable (site_ref ref s)"
  by (auto simp: process_site_def site_ref_def Let_def split: bval.split)


lemma process_site_Inr_cases:
  assumes "process_site ref lk st s = Inr st'"
  obtains (dict) kvs where "site_flags ref lk s = BDoc kvs"
      and "st' = count_features (site_ref ref s) (st\<lparr>disabled_false_count := Suc (disabled_false_count st)\<rparr>) kvs"
  | (not_dict) "\<forall>kvs. site_flags ref lk s \<noteq> BDoc kvs"
      and "st' = st\<lparr>disabled_false_count := Suc (disabled_false_count st),
                    warnings := warnings st @ [Flags_not_dict (site_ref ref s)]\<rparr>"
  using assms
  by (cases "site_flags ref lk s")
     (auto simp: process_site_def site_flags_def site_ref_def Let_def split: if_splits)

lemma not_dict_cases [simp]:
  "\<forall>kvs. v \<noteq> BDoc kvs \<Longrightarrow> flag_occ v f b = 0"
  "\<forall>kvs. site_flags ref lk s \<noteq> BDoc kvs \<Longrightarrow> site_warnings ref lk s = [Flags_not_dict (site_ref ref s)]"
  "\<forall>kvs. site_flags ref lk s \<noteq> BDoc kvs \<Longrightarrow> site_bool_flags ref lk s = {}"
  by (cases v; simp; fail) (auto simp: site_warnings_def site_bool_flags_def split: bval.split)

lemma process_site_count [agg_simps]:
  "process_site ref lk st s = Inr st' \<Longrightarrow> disabled_false_count st' = Suc (disabled_false_count st)"
  by (erule process_site_Inr_cases) (simp_all add: agg_simps)

lemma process_site_true [agg_simps]:
  "process_site ref lk st s = Inr st' \<Longrightarrow>
     n_true (tally st' f) = n_true (tally st f) + flag_occ (site_flags ref lk s) f True"
  by (erule process_site_Inr_cases) (simp_all add: agg_simps)

lemma process_site_false [agg_simps]:
  "process_site ref lk st s = Inr st' \<Longrightarrow>
     n_false (tally st' f) = n_false (tally st f) + flag_occ (site_flags ref lk s) f False"
  by (erule process_site_Inr_cases) (simp_all add: agg_simps)

lemma process_site_warnings [agg_simps]:
  "process_site ref lk st s = Inr st' \<Longrightarrow> warnings st' = warnings st @ site_warnings ref lk s"
  by (erule process_site_Inr_cases) (auto simp: agg_simps site_warnings_def split: bval.split)

lemma process_site_keys [agg_simps]:
  "process_site ref lk st s = Inr st' \<Longrightarrow>
     fst ` set (feature_counts st') = fst ` set (feature_counts st) \<union> site_bool_flags ref lk s"
  by (erule process_site_Inr_cases) (auto simp: agg_simps site_bool_flags_def split: bval.split)

lemma process_site_key_list:
  "process_site ref lk st s = Inr st' \<Longrightarrow> pd_wf id (feature_counts st) \<Longrightarrow>
     map fst (feature_counts st') = first_occ (map fst (feature_counts st) @ site_bool_flag_list ref lk s)"
  by (erule process_site_Inr_cases)
     (auto simp: count_features_key_list site_bool_flag_list_def pd_wf_id first_occ_distinct split: bval.split)

lemma process_site_wf [agg_simps]:
  "process_site ref lk st s = Inr st' \<Longrightarrow> pd_wf id (feature_counts st) \<Longrightarrow> pd_wf id (feature_counts st')"
  by (erule process_site_Inr_cases) (simp_all add: agg_simps)

subsection \<open>The outer loop\<close>

lemma votes_Nil [simp]: "votes ref lk [] f b = 0"
  by (simp add: votes_def)

lemma votes_Cons [simp]:
  "votes ref lk (s # ss) f b = flag_occ (site_flags ref lk s) f b + votes ref lk ss f b"
  by (simp add: votes_def)

lemma process_sites_ConsE:
  assumes "process_sites ref lk st (s # ss) = Inr st'"
  obtains st1 where "process_site ref lk st s = Inr st1" and "process_sites ref lk st1 ss = Inr st'"
  using assms by (auto split: sum.splits)

lemma process_sites_Inr_iff:
  "(\<exists>st'. process_sites ref lk st ss = Inr st') \<longleftrightarrow> refs_hashable ref ss"
proof (induction ss arbitrary: st)
  case Nil
  then show ?case by (simp add: refs_hashable_def)
next
  case (Cons s ss)
  show ?case
  proof (cases "process_site ref lk st s")
    case (Inl e)
    then have "\<not> py_hashable (site_ref ref s)" by (simp add: process_site_Inl_iff)
    with Inl show ?thesis by (simp add: refs_hashable_def)
  next
    case (Inr st1)
    with Cons.IH[of st1] process_site_Inr_ex[of ref lk st s] show ?thesis
      by (auto simp: refs_hashable_def)
  qed
qed

lemma process_sites_Inl: "process_sites ref lk st ss = Inl e \<Longrightarrow> e = TypeError"
  by (induction ss arbitrary: st) (auto simp: process_site_Inl_iff split: sum.splits)

declare process_sites.simps(2) [simp del]

lemma process_sites_count [agg_simps]:
  "process_sites ref lk st ss = Inr st' \<Longrightarrow>
     disabled_false_count st' = disabled_false_count st + length ss"
  by (induction ss arbitrary: st) (auto elim!: process_sites_ConsE simp: agg_simps)

lemma process_sites_true [agg_simps]:
  "process_sites ref lk st ss = Inr st' \<Longrightarrow>
     n_true (tally st' f) = n_true (tally st f) + votes ref lk ss f True"
  by (induction ss arbitrary: st) (auto elim!: process_sites_ConsE simp: agg_simps)

lemma process_sites_false [agg_simps]:
  "process_sites ref lk st ss = Inr st' \<Longrightarrow>
     n_false (tally st' f) = n_false (tally st f) + votes ref lk ss f False"
  by (induction ss arbitrary: st) (auto elim!: process_sites_ConsE simp: agg_simps)

lemma process_sites_warnings [agg_simps]:
  "process_sites ref lk st ss = Inr st' \<Longrightarrow>
     warnings st' = warnings st @ concat (map (site_warnings ref lk) ss)"
  by (induction ss arbitrary: st) (auto elim!: process_sites_ConsE simp: agg_simps)

lemma process_sites_keys [agg_simps]:
  "process_sites ref lk st ss = Inr st' \<Longrightarrow>
     fst ` set (feature_counts st') = fst ` set (feature_counts st) \<union> (\<Union>s \<in> set ss. site_bool_flags ref lk s)"
proof (induction ss arbitrary: st)
  case (Cons s ss)
  from Cons.prems obtain st1 where s: "process_site ref lk st s = Inr st1"
    and ss: "process_sites ref lk st1 ss = Inr st'"
    by (rule process_sites_ConsE)
  from Cons.IH[OF ss] process_site_keys[OF s] show ?case by auto
qed simp

lemma process_sites_key_list:
  "process_sites ref lk st ss = Inr st' \<Longrightarrow> pd_wf id (feature_counts st) \<Longrightarrow>
     map fst (feature_counts st') =
       first_occ (map fst (feature_counts st) @ concat (map (site_bool_flag_list ref lk) ss))"
proof (induction ss arbitrary: st)
  case Nil
  then show ?case by (simp add: pd_wf_id first_occ_distinct)
next
  case (Cons s ss)
  from Cons.prems(1) obtain st1 where s: "process_site ref lk st s = Inr st1"
    and ss: "process_sites ref lk st1 ss = Inr st'"
    by (rule process_sites_ConsE)
  from Cons.IH[OF ss process_site_wf[OF s Cons.prems(2)]] process_site_key_list[OF s Cons.prems(2)]
  show ?case by (simp add: first_occ_append_first_occ)
qed

lemma process_sites_wf [agg_simps]:
  "process_sites ref lk st ss = Inr st' \<Longrightarrow> pd_wf id (feature_counts st) \<Longrightarrow> pd_wf id (feature_counts st')"
  by (induction ss arbitrary: st) (auto elim!: process_sites_ConsE simp: agg_simps)

subsection \<open>The loop over the site cursor\<close>

lemma aggregate_Inr:
  "aggregate ref lk cur = Inr st \<Longrightarrow>
     cur_fail cur = None \<and> process_sites ref lk agg_init (cur_docs cur) = Inr st"
  by (auto simp: aggregate_def split: sum.splits option.splits)

lemma agg_init_simps [simp]:
  "disabled_false_count agg_init = 0" "feature_counts agg_init = []" "warnings agg_init = []"
  "tally agg_init f = zero_counts"
  by (simp_all add: agg_init_def tally_def)

lemma zero_counts_simps [simp]: "n_true zero_counts = 0" "n_false zero_counts = 0"
  by (simp_all add: zero_counts_def)

lemma flag_occ_bound:
  assumes "flags_ok v"
  shows "flag_occ v f True + flag_occ v f False \<le> 1"
proof (cases v)
  case (BDoc kvs)
  with assms count_list_distinct_fst_pair[of kvs "BBool True" "BBool False" f] show ?thesis
    by simp
qed simp_all

lemma site_flags_ok: "list_all (flags_ok \<circ> snd) lk \<Longrightarrow> flags_ok (site_flags ref lk s)"
  using pd_get_cases[of py_key lk "site_ref ref s" "BDoc []"]
  by (auto simp: site_flags_def list_all_iff)

lemma votes_bound:
  "list_all (flags_ok \<circ> snd) lk \<Longrightarrow> votes ref lk ss f True + votes ref lk ss f False \<le> length ss"
  unfolding votes_def sum_list_addf[symmetric]
  by (rule sum_list_map_le_length) (metis flag_occ_bound site_flags_ok)

text \<open>C5: the counter of active sites equals the number of sites the cursor delivered.\<close>

theorem aggregate_counts_sites:
  "aggregate ref lk cur = Inr st \<Longrightarrow> disabled_false_count st = length (cur_docs cur)"
  by (auto dest!: aggregate_Inr simp: agg_simps)

text \<open>C4: each flag's true and false tallies are the specification's vote counts.\<close>

theorem aggregate_tally_votes:
  "aggregate ref lk cur = Inr st \<Longrightarrow>
     n_true (tally st f) = votes ref lk (cur_docs cur) f True \<and>
     n_false (tally st f) = votes ref lk (cur_docs cur) f False"
  by (auto dest!: aggregate_Inr simp: agg_simps)

text \<open>C6: for lookups of genuine dicts, a flag's true plus false count never exceeds the site count.\<close>

theorem aggregate_tally_bound:
  assumes "list_all (flags_ok \<circ> snd) lk" and "aggregate ref lk cur = Inr st"
  shows "n_true (tally st f) + n_false (tally st f) \<le> disabled_false_count st"
proof -
  from assms(2) have p: "process_sites ref lk agg_init (cur_docs cur) = Inr st"
    by (simp add: aggregate_Inr)
  from votes_bound[OF assms(1)] show ?thesis
    by (simp add: process_sites_true[OF p] process_sites_false[OF p] process_sites_count[OF p])
qed

text \<open>C16: the flags in the output are exactly those some delivered site gives a boolean value, each once.\<close>

theorem aggregate_keys:
  assumes "aggregate ref lk cur = Inr st"
  shows "fst ` set (feature_counts st) = (\<Union>s \<in> set (cur_docs cur). site_bool_flags ref lk s) \<and>
     pd_wf id (feature_counts st)"
proof -
  from assms have p: "process_sites ref lk agg_init (cur_docs cur) = Inr st"
    by (simp add: aggregate_Inr)
  show ?thesis using process_sites_keys[OF p] process_sites_wf[OF p] by simp
qed

text \<open>C17: the flags of \<open>feature_counts\<close>, hence of the report, are listed in the order in
  which a delivered site first gives them a boolean value: the order of the output follows
  the order in which the store delivers the sites.\<close>

theorem aggregate_key_order:
  assumes "aggregate ref lk cur = Inr st"
  shows "map fst (feature_counts st) = first_occ (concat (map (site_bool_flag_list ref lk) (cur_docs cur)))"
proof -
  from assms have p: "process_sites ref lk agg_init (cur_docs cur) = Inr st"
    by (simp add: aggregate_Inr)
  have "pd_wf id (feature_counts agg_init)" by simp
  from process_sites_key_list[OF p this] show ?thesis by simp
qed

text \<open>C15: every skipped flag and every non-dict flag set leaves exactly one warning, in order.\<close>

theorem aggregate_warnings:
  "aggregate ref lk cur = Inr st \<Longrightarrow>
     warnings st = concat (map (site_warnings ref lk) (cur_docs cur))"
  by (auto dest!: aggregate_Inr simp: agg_simps)

text \<open>C14: the loop fails exactly with a TypeError on an unhashable reference, or with the cursor's exception.\<close>

theorem aggregate_error:
  "aggregate ref lk cur = Inl e \<longleftrightarrow>
     (\<not> refs_hashable ref (cur_docs cur) \<and> e = TypeError) \<or>
     (refs_hashable ref (cur_docs cur) \<and> cur_fail cur = Some e)"
proof (cases "refs_hashable ref (cur_docs cur)")
  case True
  then obtain st where "process_sites ref lk agg_init (cur_docs cur) = Inr st"
    using process_sites_Inr_iff by blast
  with True show ?thesis by (simp add: aggregate_def split: option.splits)
next
  case False
  then obtain e' where "process_sites ref lk agg_init (cur_docs cur) = Inl e'"
    using process_sites_Inr_iff by (metis sumE)
  with False process_sites_Inl show ?thesis by (auto simp: aggregate_def)
qed

text \<open>C13: every site the query delivers with a hashable reference finds its configuration in the lookup,
  so the default \<open>{}\<close> of line 90 is never used for it.\<close>

theorem find_sites_ref_found:
  assumes "s \<in> set (find_sites ref (map fst lk) coll)" and "py_hashable (site_ref ref s)"
  shows "pd_lookup py_key lk (site_ref ref s) \<noteq> None"
proof -
  from assms(1) obtain s0 where f: "site_filter ref (map fst lk) s0"
    and s: "s = project [ref, ''FEATURES_FLAGS''] s0"
    by (auto simp: find_sites_def)
  then have "site_ref ref s = doc_get s0 ref BNull" by (simp add: site_ref_def)
  with assms(2) site_filter_ref_in_ids[OF f] have "site_ref ref s \<in> set (map fst lk)"
    by simp
  then show ?thesis by (rule pd_lookup_key_present)
qed

subsection \<open>Witnesses\<close>

lemmas agg_eval = aggregate_def process_sites.simps process_site_def count_feature.simps
  tally_def count_flag_def zero_counts_def agg_init_def Let_def

theorem aggregate_counts_sites_witness:
  "\<exists>st. aggregate ''server_env_id'' [(BStr ''id1'', BDoc [(''beta'', BBool True)])]
     \<lparr>cur_docs = [[(''server_env_id'', BStr ''id1'')], [(''server_env_id'', BStr ''id1'')]], cur_fail = None\<rparr> = Inr st
     \<and> disabled_false_count st = 2"
proof -
  obtain st where h: "aggregate ''server_env_id'' [(BStr ''id1'', BDoc [(''beta'', BBool True)])]
     \<lparr>cur_docs = [[(''server_env_id'', BStr ''id1'')], [(''server_env_id'', BStr ''id1'')]], cur_fail = None\<rparr> = Inr st"
    by (simp add: agg_eval)
  with aggregate_counts_sites[OF h] show ?thesis by auto
qed

theorem aggregate_tally_votes_witness:
  "\<exists>st. aggregate ''server_env_id'' [(BStr ''id1'', BDoc [(''beta'', BBool True), (''gamma'', BBool False)])]
     \<lparr>cur_docs = [[(''server_env_id'', BStr ''id1'')]], cur_fail = None\<rparr> = Inr st
     \<and> n_true (tally st ''beta'') = 1 \<and> n_false (tally st ''gamma'') = 1"
proof -
  obtain st where h: "aggregate ''server_env_id'' [(BStr ''id1'', BDoc [(''beta'', BBool True), (''gamma'', BBool False)])]
     \<lparr>cur_docs = [[(''server_env_id'', BStr ''id1'')]], cur_fail = None\<rparr> = Inr st"
    by (simp add: agg_eval)
  with aggregate_tally_votes[OF h, of "''beta''"] aggregate_tally_votes[OF h, of "''gamma''"] show ?thesis
    by (auto simp: votes_def site_flags_def site_ref_def)
qed

theorem aggregate_tally_bound_witness:
  "\<exists>st. aggregate ''server_env_id'' [(BStr ''id1'', BDoc [(''beta'', BBool True)])]
     \<lparr>cur_docs = [[(''server_env_id'', BStr ''id1'')]], cur_fail = None\<rparr> = Inr st
     \<and> n_true (tally st ''beta'') + n_false (tally st ''beta'') \<le> disabled_false_count st"
proof -
  obtain st where h: "aggregate ''server_env_id'' [(BStr ''id1'', BDoc [(''beta'', BBool True)])]
     \<lparr>cur_docs = [[(''server_env_id'', BStr ''id1'')]], cur_fail = None\<rparr> = Inr st"
    by (simp add: agg_eval)
  have ok: "list_all (flags_ok \<circ> snd) [(BStr ''id1'', BDoc [(''beta'', BBool True)])]"
    by simp
  from h aggregate_tally_bound[OF ok h, of "''beta''"] show ?thesis by auto
qed

theorem aggregate_keys_witness:
  "\<exists>st. aggregate ''server_env_id'' [(BStr ''id1'', BDoc [(''beta'', BBool True), (''note'', BStr ''x'')])]
     \<lparr>cur_docs = [[(''server_env_id'', BStr ''id1'')]], cur_fail = None\<rparr> = Inr st
     \<and> fst ` set (feature_counts st) = {''beta''}"
proof -
  obtain st where h: "aggregate ''server_env_id'' [(BStr ''id1'', BDoc [(''beta'', BBool True), (''note'', BStr ''x'')])]
     \<lparr>cur_docs = [[(''server_env_id'', BStr ''id1'')]], cur_fail = None\<rparr> = Inr st"
    by (simp add: agg_eval)
  with aggregate_keys[OF h] show ?thesis
    by (auto simp: site_bool_flags_def site_flags_def site_ref_def)
qed

theorem aggregate_key_order_witness:
  "\<exists>st. aggregate ''server_env_id''
       [(BStr ''id1'', BDoc [(''b'', BBool True)]), (BStr ''id2'', BDoc [(''a'', BBool False), (''b'', BBool False)])]
       \<lparr>cur_docs = [[(''server_env_id'', BStr ''id2'')], [(''server_env_id'', BStr ''id1'')]], cur_fail = None\<rparr> = Inr st
     \<and> map fst (feature_counts st) = [''a'', ''b'']"
proof -
  obtain st where h: "aggregate ''server_env_id''
       [(BStr ''id1'', BDoc [(''b'', BBool True)]), (BStr ''id2'', BDoc [(''a'', BBool False), (''b'', BBool False)])]
       \<lparr>cur_docs = [[(''server_env_id'', BStr ''id2'')], [(''server_env_id'', BStr ''id1'')]], cur_fail = None\<rparr> = Inr st"
    by (simp add: agg_eval)
  with aggregate_key_order[OF h] show ?thesis
    by (auto simp: site_bool_flag_list_def site_flags_def site_ref_def first_occ_def)
qed

theorem aggregate_warnings_witness:
  "\<exists>st. aggregate ''server_env_id'' [(BStr ''id1'', BStr ''not-a-map'')]
     \<lparr>cur_docs = [[(''server_env_id'', BStr ''id1'')]], cur_fail = None\<rparr> = Inr st
     \<and> warnings st = [Flags_not_dict (BStr ''id1'')]"
proof -
  obtain st where h: "aggregate ''server_env_id'' [(BStr ''id1'', BStr ''not-a-map'')]
     \<lparr>cur_docs = [[(''server_env_id'', BStr ''id1'')]], cur_fail = None\<rparr> = Inr st"
    by (simp add: agg_eval)
  with aggregate_warnings[OF h] show ?thesis
    by (auto simp: site_warnings_def site_flags_def site_ref_def)
qed

theorem aggregate_error_witness:
  "aggregate ''server_env_id'' [(BStr ''id1'', BDoc [])]
     \<lparr>cur_docs = [[(''server_env_id'', BArr [BStr ''id1''])]], cur_fail = None\<rparr> = Inl TypeError"
  using aggregate_error[of "''server_env_id''" "[(BStr ''id1'', BDoc [])]"
      "\<lparr>cur_docs = [[(''server_env_id'', BArr [BStr ''id1''])]], cur_fail = None\<rparr>" TypeError]
  by (simp add: refs_hashable_def site_ref_def)

theorem find_sites_ref_found_witness:
  "pd_lookup py_key [(BStr ''e1'', BDoc [])] (site_ref ''ref'' [(''_id'', BOid 3), (''ref'', BStr ''e1'')]) \<noteq> None"
proof (rule find_sites_ref_found)
  show "[(''_id'', BOid 3), (''ref'', BStr ''e1'')] \<in> set (find_sites ''ref'' (map fst [(BStr ''e1'', BDoc [])])
          [[(''_id'', BOid 3), (''ref'', BStr ''e1''), (''disabled'', BBool False)]])"
    by (simp add: find_sites_def site_filter_def mongo_in_match_def project_def)
  show "py_hashable (site_ref ''ref'' [(''_id'', BOid 3), (''ref'', BStr ''e1'')])"
    by (simp add: site_ref_def)
qed

end
