(* ===== verification/Console.thy ===== *)
theory Console
  imports Aggregate
begin

text \<open>
  What the scripts print. Every \<open>print\<close> of \<^verbatim>\<open>src/PROD-CZFeaturesFlagsScript.py\<close>
  is one constructor of \<open>msg\<close>, carrying the values its f-string interpolates (an
  exception, a count, a path, a warning); the text around them is fixed and not
  repeated. The console output of a run is the list of its messages in order. The two
  \<open>except\<close> chains of \<open>main\<close> choose their message by the class of the exception:
  \<open>connect_except\<close> for lines 41--49 and \<open>process_except\<close> for lines 119--122.
\<close>

datatype msg =
    Connected
  | Could_not_connect exc
  | Connect_op_failed exc
  | Connect_unexpected exc
  | Retrieving
  | Total_ids nat
  | No_ids_found
  | Querying
  | Processing
  | Warn warning
  | Created_directory string
  | Saved_to string
  | Save_failed string
  | All_saved string
  | Processing_op_failed exc
  | Processing_error exc
  | Connection_closed

text \<open>\<open>except ConnectionFailure\<close> / \<open>except OperationFailure\<close> / \<open>except Exception\<close> of
  the connection phase, lines 41--49.\<close>

definition connect_except :: "exc \<Rightarrow> msg" where
  "connect_except ex =
     (case ex of
        ConnectionFailure \<Rightarrow> Could_not_connect ex
      | OperationFailure \<Rightarrow> Connect_op_failed ex
      | _ \<Rightarrow> Connect_unexpected ex)"

text \<open>\<open>except OperationFailure\<close> / \<open>except Exception\<close> of the processing phase, lines
  119--122: a \<open>ConnectionFailure\<close> raised while processing falls to the second clause.\<close>

definition process_except :: "exc \<Rightarrow> msg" where
  "process_except ex = (if ex = OperationFailure then Processing_op_failed ex else Processing_error ex)"

lemma connect_except_simps [simp]:
  "connect_except ConnectionFailure = Could_not_connect ConnectionFailure"
  "connect_except OperationFailure = Connect_op_failed OperationFailure"
  "connect_except TypeError = Connect_unexpected TypeError"
  "connect_except OtherError = Connect_unexpected OtherError"
  by (simp_all add: connect_except_def)

end
