(* ===== verification/Json.thy ===== *)
theory Json
  imports Prelude
begin

text \<open>
  The JSON text that \<open>json.dump(data, json_file, indent=4)\<close> writes in \<open>save_json\<close>
  (\<^verbatim>\<open>src/PROD-CZFeaturesFlagsScript.py\<close> line 152), for the values a report
  contains: non-negative integers, strings and objects. The printer follows
  CPython's \<open>json\<close> encoder with \<open>indent=4\<close> and the default \<open>ensure_ascii=True\<close>:
  item separator \<open>","\<close>, key separator \<open>": "\<close>, each member on a new line indented
  by four spaces per level, \<open>{}\<close> for an empty object, the short escapes for quote,
  backslash and five control characters, \<open>\u00xx\<close> in lower-case hex for the other
  characters outside \<open>' '..'~'\<close>. Characters are bytes, so every escape has the
  \<open>\u00xx\<close> form. The file of line 151 is opened in text mode, so the characters
  that reach it are \<open>text_mode\<close> of that text: every line break written as
  \<open>"\r\n"\<close>. The reader \<open>json_loads\<close> is the matching fragment of
  \<open>json.loads\<close>, with fuel bounded by the length of its input; it is the
  specification side of the round trip the specification asks for, shown here on the
  text as it reaches the file (\<open>json_roundtrip\<close>).
\<close>
text \<open>A JSON value: the integers, strings and objects (members in order) a report holds.\<close>

datatype jval = JNum nat | JStr string | JObj "(string \<times> jval) list"

definition hex_chars :: string where
  "hex_chars = ''0123456789abcdef''"

text \<open>\<open>int.__repr__\<close> on a non-negative integer: its decimal digits.\<close>

fun nat_str :: "nat \<Rightarrow> string" where
  "nat_str n = (if n < 10 then [hex_chars ! n] else nat_str (n div 10) @ [hex_chars ! (n mod 10)])"

text \<open>\<open>py_encode_basestring_ascii\<close>: the escape of one character.\<close>

definition json_escape :: "char \<Rightarrow> string" where
  "json_escape c =
     (if c = CHR 0x22 then [CHR 0x5C, CHR 0x22]
      else if c = CHR 0x5C then [CHR 0x5C, CHR 0x5C]
      else if c = CHR 0x0A then [CHR 0x5C, CHR ''n'']
      else if c = CHR 0x0D then [CHR 0x5C, CHR ''r'']
      else if c = CHR 0x09 then [CHR 0x5C, CHR ''t'']
      else if c = CHR 0x08 then [CHR 0x5C, CHR ''b'']
      else if c = CHR 0x0C then [CHR 0x5C, CHR ''f'']
      else if of_char c < (32::nat) \<or> (127::nat) \<le> of_char c
        then [CHR 0x5C, CHR ''u'', CHR ''0'', CHR ''0'',
              hex_chars ! (of_char c div 16), hex_chars ! (of_char c mod 16)]
      else [c])"

definition dump_str :: "string \<Rightarrow> string" where
  "dump_str s = CHR 0x22 # concat (map json_escape s) @ [CHR 0x22]"

text \<open>The newline and indentation before a member at nesting level \<open>l\<close>.\<close>

definition newline_indent :: "nat \<Rightarrow> string" where
  "newline_indent l = CHR 0x0A # replicate (4 * l) (CHR '' '')"

text \<open>\<open>_iterencode\<close> with \<open>indent=4\<close>: a value at nesting level \<open>l\<close>, and the members of a
  non-empty object whose members sit at level \<open>l\<close>.\<close>

fun dump_val :: "nat \<Rightarrow> jval \<Rightarrow> string"
  and dump_members :: "nat \<Rightarrow> (string \<times> jval) list \<Rightarrow> string" where
  "dump_val l (JNum n) = nat_str n"
| "dump_val l (JStr s) = dump_str s"
| "dump_val l (JObj []) = ''{}''"
| "dump_val l (JObj (kv # kvs)) =
     ''{'' @ newline_indent (Suc l) @ dump_members (Suc l) (kv # kvs) @ newline_indent l @ ''}''"
| "dump_members l [] = []"
| "dump_members l [(k, v)] = dump_str k @ '': '' @ dump_val l v"
| "dump_members l ((k, v) # kvs) =
     dump_str k @ '': '' @ dump_val l v @ '','' @ newline_indent l @ dump_members l kvs"

definition json_dumps :: "jval \<Rightarrow> string" where
  "json_dumps v = dump_val 0 v"

text \<open>The text layer of the file \<open>open(filepath, "w", encoding='utf-8')\<close> returns: on
  Windows, the platform \<open>ntpath\<close> commits the model to, a text-mode stream with the
  default \<open>newline=None\<close> writes every \<open>"\n"\<close> as \<open>os.linesep\<close>, that is \<open>"\r\n"\<close>.
  The text \<open>json.dump\<close> produces is ASCII, so UTF-8 encodes each character as itself.\<close>

definition text_mode :: "string \<Rightarrow> string" where
  "text_mode s = concat (map (\<lambda>c. if c = CHR 0x0A then [CHR 0x0D, CHR 0x0A] else [c]) s)"

subsection \<open>Parsing the fragment (json.loads)\<close>

definition is_ws :: "char \<Rightarrow> bool" where
  "is_ws c \<longleftrightarrow> c = CHR '' '' \<or> c = CHR 0x0A \<or> c = CHR 0x0D \<or> c = CHR 0x09"

definition skip_ws :: "string \<Rightarrow> string" where
  "skip_ws s = dropWhile is_ws s"

definition digit_char :: "char \<Rightarrow> bool" where
  "digit_char c \<longleftrightarrow> (48::nat) \<le> of_char c \<and> (of_char c :: nat) \<le> 57"

definition parse_digits :: "string \<Rightarrow> nat \<times> string" where
  "parse_digits s =
     (foldl (\<lambda>a c. 10 * a + (of_char c - 48)) 0 (takeWhile digit_char s), dropWhile digit_char s)"

definition hex_val :: "char \<Rightarrow> nat option" where
  "hex_val c =
     (let n = (of_char c :: nat) in
      if 48 \<le> n \<and> n \<le> 57 then Some (n - 48)
      else if 97 \<le> n \<and> n \<le> 102 then Some (n - 87)
      else if 65 \<le> n \<and> n \<le> 70 then Some (n - 55)
      else None)"

definition unescape :: "char \<Rightarrow> char option" where
  "unescape e =
     (if e = CHR 0x22 \<or> e = CHR 0x5C \<or> e = CHR ''/'' then Some e
      else if e = CHR ''n'' then Some (CHR 0x0A)
      else if e = CHR ''r'' then Some (CHR 0x0D)
      else if e = CHR ''t'' then Some (CHR 0x09)
      else if e = CHR ''b'' then Some (CHR 0x08)
      else if e = CHR ''f'' then Some (CHR 0x0C)
      else None)"

fun parse_str_body :: "string \<Rightarrow> (string \<times> string) option" where
  "parse_str_body [] = None"
| "parse_str_body (c # cs) =
     (if c = CHR 0x22 then Some ([], cs)
      else if c = CHR 0x5C then
        (case cs of
           [] \<Rightarrow> None
         | e # cs' \<Rightarrow>
             if e = CHR ''u'' then
               (case cs' of
                  a # b # x # y # rest \<Rightarrow>
                    (case (hex_val a, hex_val b, hex_val x, hex_val y) of
                       (Some ha, Some hb, Some hx, Some hy) \<Rightarrow>
                         (let m = 4096 * ha + 256 * hb + 16 * hx + hy in
                          if m < 256 then map_option (apfst (Cons (char_of m))) (parse_str_body rest)
                          else None)
                     | _ \<Rightarrow> None)
                | _ \<Rightarrow> None)
             else (case unescape e of
                     None \<Rightarrow> None
                   | Some ch \<Rightarrow> map_option (apfst (Cons ch)) (parse_str_body cs')))
      else if of_char c < (32::nat) then None
      else map_option (apfst (Cons c)) (parse_str_body cs))"

fun parse_val :: "nat \<Rightarrow> string \<Rightarrow> (jval \<times> string) option"
  and parse_members :: "nat \<Rightarrow> string \<Rightarrow> ((string \<times> jval) list \<times> string) option" where
  "parse_val 0 s = None"
| "parse_val (Suc n) s =
     (case skip_ws s of
        [] \<Rightarrow> None
      | c # cs \<Rightarrow>
          if c = CHR ''{'' then
            (case skip_ws cs of
               [] \<Rightarrow> None
             | d # ds \<Rightarrow>
                 if d = CHR ''}'' then Some (JObj [], ds)
                 else map_option (apfst JObj) (parse_members n (d # ds)))
          else if c = CHR 0x22 then map_option (apfst JStr) (parse_str_body cs)
          else if digit_char c then Some (apfst JNum (parse_digits (c # cs)))
          else None)"
| "parse_members 0 s = None"
| "parse_members (Suc n) s =
     (case skip_ws s of
        c # cs \<Rightarrow>
          if c \<noteq> CHR 0x22 then None
          else (case parse_str_body cs of
                  None \<Rightarrow> None
                | Some (k, r) \<Rightarrow>
                    (case skip_ws r of
                       d # r2 \<Rightarrow>
                         if d \<noteq> CHR '':'' then None
                         else (case parse_val n r2 of
                                 None \<Rightarrow> None
                               | Some (v, r3) \<Rightarrow>
                                   (case skip_ws r3 of
                                      e # r4 \<Rightarrow>
                                        if e = CHR '','' then map_option (apfst (Cons (k, v))) (parse_members n r4)
                                        else if e = CHR ''}'' then Some ([(k, v)], r4)
                                        else None
                                    | [] \<Rightarrow> None))
                     | [] \<Rightarrow> None))
      | [] \<Rightarrow> None)"

definition json_loads :: "string \<Rightarrow> jval option" where
  "json_loads s =
     (case parse_val (length s) s of
        Some (v, r) \<Rightarrow> if skip_ws r = [] then Some v else None
      | None \<Rightarrow> None)"

text \<open>Fuel enough to parse a value: one unit per nesting level and per member.\<close>

fun jfuel :: "jval \<Rightarrow> nat"
  and members_fuel :: "(string \<times> jval) list \<Rightarrow> nat" where
  "jfuel (JObj kvs) = Suc (members_fuel kvs)"
| "jfuel (JNum _) = 1"
| "jfuel (JStr _) = 1"
| "members_fuel [] = 0"
| "members_fuel ((k, v) # kvs) = Suc (max (jfuel v) (members_fuel kvs))"

text \<open>A JSON value whose objects have pairwise distinct keys at every level, the
  shape \<open>json.loads\<close> reads back without losing a member.\<close>

fun keys_ok :: "jval \<Rightarrow> bool"
  and members_ok :: "(string \<times> jval) list \<Rightarrow> bool" where
  "keys_ok (JObj kvs) = (distinct (map fst kvs) \<and> members_ok kvs)"
| "keys_ok (JNum _) = True"
| "keys_ok (JStr _) = True"
| "members_ok [] = True"
| "members_ok ((k, v) # kvs) = (keys_ok v \<and> members_ok kvs)"

definition ends_token :: "string \<Rightarrow> bool" where
  "ends_token rest \<longleftrightarrow> rest = [] \<or> \<not> digit_char (hd rest)"

subsection \<open>Numbers\<close>

lemma hex_chars_code:
  assumes "k < 16"
  shows "(of_char (hex_chars ! k) :: nat) = (if k < 10 then 48 + k else 87 + k)"
proof -
  from assms have "k \<in> set [0..<16]" by simp
  then show ?thesis by (simp add: hex_chars_def upt_rec) (elim disjE; simp)
qed

lemma digit_char_hex:
  "k < 10 \<Longrightarrow> digit_char (hex_chars ! k) \<and> (of_char (hex_chars ! k) :: nat) - 48 = k"
  by (simp add: digit_char_def hex_chars_code)

declare nat_str.simps [simp del]

lemma nat_str_digits: "list_all digit_char (nat_str n)"
proof (induction n rule: nat_str.induct)
  case (1 n)
  then show ?case by (subst nat_str.simps) (simp add: digit_char_hex)
qed

lemma nat_str_not_Nil: "nat_str n \<noteq> []"
  by (subst nat_str.simps) simp

lemma nat_str_small: "n < 10 \<Longrightarrow> nat_str n = [hex_chars ! n]"
  by (subst nat_str.simps) simp

lemma nat_str_value: "foldl (\<lambda>a c. 10 * a + (of_char c - 48)) 0 (nat_str n) = n"
proof (induction n rule: nat_str.induct)
  case (1 n)
  show ?case
  proof (cases "n < 10")
    case True
    then show ?thesis by (subst nat_str.simps) (simp add: digit_char_hex)
  next
    case False
    with "1.IH" show ?thesis by (subst nat_str.simps) (simp add: digit_char_hex)
  qed
qed

lemma parse_digits_nat_str:
  assumes "rest = [] \<or> \<not> digit_char (hd rest)"
  shows "parse_digits (nat_str n @ rest) = (n, rest)"
proof -
  have t: "takeWhile digit_char rest = []" and d: "dropWhile digit_char rest = rest"
    using assms by (cases rest; simp)+
  have "\<forall>x\<in>set (nat_str n). digit_char x" using nat_str_digits by (simp add: list_all_iff)
  then show ?thesis by (simp add: parse_digits_def takeWhile_append2 t d nat_str_value)
qed

subsection \<open>Strings\<close>

lemma hex_val_hex: "k < 16 \<Longrightarrow> hex_val (hex_chars ! k) = Some k"
  by (simp add: hex_val_def hex_chars_code Let_def)

lemma parse_str_body_plain:
  "c \<noteq> CHR 0x22 \<Longrightarrow> c \<noteq> CHR 0x5C \<Longrightarrow> \<not> (of_char c :: nat) < 32 \<Longrightarrow>
     parse_str_body (c # t) = map_option (apfst (Cons c)) (parse_str_body t)"
  by simp

lemma parse_str_body_unicode:
  assumes "(of_char c :: nat) < 32 \<or> 127 \<le> (of_char c :: nat)"
  shows "parse_str_body ([CHR 0x5C, CHR ''u'', CHR ''0'', CHR ''0'',
              hex_chars ! (of_char c div 16), hex_chars ! (of_char c mod 16)] @ t) =
         map_option (apfst (Cons c)) (parse_str_body t)"
proof -
  let ?n = "of_char c :: nat"
  have lt: "?n < 256" by simp
  have hi: "?n div 16 < 16" using lt by (simp add: div_less_iff_less_mult)
  have lo: "?n mod 16 < 16" by simp
  have z: "hex_val (CHR ''0'') = Some 0" by (simp add: hex_val_def)
  have m: "4096 * 0 + 256 * 0 + 16 * (?n div 16) + ?n mod 16 = ?n" by simp
  show ?thesis
    by (simp only: append.simps parse_str_body.simps hex_val_hex[OF hi] hex_val_hex[OF lo] z
          list.case option.case prod.case Let_def m lt if_True char_of_char) simp
qed

lemma parse_str_body_escape:
  "parse_str_body (json_escape c @ t) = map_option (apfst (Cons c)) (parse_str_body t)"
proof -
  consider "c = CHR 0x22" | "c = CHR 0x5C" | "c = CHR 0x0A" | "c = CHR 0x0D" | "c = CHR 0x09"
    | "c = CHR 0x08" | "c = CHR 0x0C"
    | "c \<notin> {CHR 0x22, CHR 0x5C, CHR 0x0A, CHR 0x0D, CHR 0x09, CHR 0x08, CHR 0x0C}"
      "(of_char c :: nat) < 32 \<or> 127 \<le> (of_char c :: nat)"
    | "c \<notin> {CHR 0x22, CHR 0x5C, CHR 0x0A, CHR 0x0D, CHR 0x09, CHR 0x08, CHR 0x0C}"
      "\<not> ((of_char c :: nat) < 32 \<or> 127 \<le> (of_char c :: nat))"
    by blast
  then show ?thesis
  proof cases
    case 8
    then have "json_escape c = [CHR 0x5C, CHR ''u'', CHR ''0'', CHR ''0'',
              hex_chars ! (of_char c div 16), hex_chars ! (of_char c mod 16)]"
      by (auto simp: json_escape_def)
    with parse_str_body_unicode[OF 8(2)] show ?thesis by simp
  next
    case 9
    then have "json_escape c = [c]" by (auto simp: json_escape_def)
    with 9 show ?thesis by (simp add: parse_str_body_plain)
  qed (simp_all add: json_escape_def unescape_def)
qed

lemma parse_str_body_dump:
  "parse_str_body (concat (map json_escape s) @ CHR 0x22 # rest) = Some (s, rest)"
  by (induction s) (simp_all add: parse_str_body_escape)

subsection \<open>Whitespace and token starts\<close>

lemma skip_ws_ws_append: "list_all is_ws w \<Longrightarrow> skip_ws (w @ x) = skip_ws x"
  by (induction w) (simp_all add: skip_ws_def)

lemma skip_ws_Cons: "\<not> is_ws c \<Longrightarrow> skip_ws (c # x) = c # x"
  by (simp add: skip_ws_def)

lemma newline_indent_ws: "list_all is_ws (newline_indent l)"
  by (simp add: newline_indent_def is_ws_def list_all_iff)

lemma parse_val_ws: "list_all is_ws w \<Longrightarrow> parse_val n (w @ x) = parse_val n x"
  by (cases n) (simp_all add: skip_ws_ws_append)

lemma parse_members_ws: "list_all is_ws w \<Longrightarrow> parse_members n (w @ x) = parse_members n x"
  by (cases n) (simp_all add: skip_ws_ws_append)

lemma digit_char_not:
  "digit_char c \<Longrightarrow> \<not> is_ws c \<and> c \<noteq> CHR ''{'' \<and> c \<noteq> CHR 0x22"
  by (auto simp: digit_char_def is_ws_def)

lemma special_chars:
  "\<not> is_ws (CHR 0x22)" "\<not> is_ws (CHR ''{'')" "\<not> is_ws (CHR ''}'')" "\<not> is_ws (CHR '','')"
  "\<not> is_ws (CHR '':'')" "is_ws (CHR '' '')"
  "\<not> digit_char (CHR ''}'')" "\<not> digit_char (CHR '','')"
  by (simp_all add: is_ws_def digit_char_def)

lemma ends_token_ws: "list_all is_ws w \<Longrightarrow> ends_token (w @ CHR ''}'' # rest)"
  by (cases w) (auto simp: ends_token_def is_ws_def digit_char_def)

lemma nat_str_Cons: "\<exists>c cs. nat_str n = c # cs \<and> digit_char c"
  using nat_str_not_Nil[of n] nat_str_digits[of n] by (cases "nat_str n") auto

lemma dump_members_Cons: "\<exists>cs. dump_members l (kv # kvs) = CHR 0x22 # cs"
  by (cases kv; cases kvs) (simp_all add: dump_str_def)

subsection \<open>The text-mode stream\<close>

lemma text_mode_Nil [simp]: "text_mode [] = []"
  by (simp add: text_mode_def)

lemma text_mode_Cons [simp]:
  "text_mode (c # s) = (if c = CHR 0x0A then [CHR 0x0D, CHR 0x0A] else [c]) @ text_mode s"
  by (simp add: text_mode_def)

lemma text_mode_append [simp]: "text_mode (x @ y) = text_mode x @ text_mode y"
  by (simp add: text_mode_def)

lemma text_mode_no_newline: "CHR 0x0A \<notin> set s \<Longrightarrow> text_mode s = s"
  by (induction s) auto

lemma length_text_mode: "length s \<le> length (text_mode s)"
  by (induction s) auto

lemma hex_chars_not_newline: "k < 16 \<Longrightarrow> CHR 0x0A \<noteq> hex_chars ! k"
proof
  assume k: "k < 16" and e: "CHR 0x0A = hex_chars ! k"
  have "(of_char (hex_chars ! k) :: nat) = 10" by (simp flip: e)
  with hex_chars_code[OF k] show False by (simp split: if_splits)
qed

lemma json_escape_no_newline: "CHR 0x0A \<notin> set (json_escape c)"
proof -
  have "(of_char c :: nat) div 16 < 16"
    using nat_of_char_less_256[of c] by (simp add: div_less_iff_less_mult)
  then have "CHR 0x0A \<noteq> hex_chars ! (of_char c div 16)" "CHR 0x0A \<noteq> hex_chars ! (of_char c mod 16)"
    by (simp_all add: hex_chars_not_newline)
  then show ?thesis by (auto simp: json_escape_def)
qed

lemma text_mode_escaped [simp]: "text_mode (concat (map json_escape s)) = concat (map json_escape s)"
  by (rule text_mode_no_newline) (auto simp: json_escape_no_newline)

lemma text_mode_dump_str [simp]: "text_mode (dump_str s) = dump_str s"
  by (simp add: dump_str_def)

lemma text_mode_nat_str [simp]: "text_mode (nat_str n) = nat_str n"
  using nat_str_digits[of n]
  by (intro text_mode_no_newline) (auto simp: list_all_iff digit_char_def)

lemma text_mode_newline_indent [simp]:
  "text_mode (newline_indent l) = CHR 0x0D # newline_indent l"
proof -
  have "text_mode (replicate (4 * l) (CHR '' '')) = replicate (4 * l) (CHR '' '')"
    by (rule text_mode_no_newline) simp
  then show ?thesis by (simp add: newline_indent_def)
qed

lemma line_break_ws: "list_all is_ws (CHR 0x0D # newline_indent l)"
  by (simp add: newline_indent_ws is_ws_def)

subsection \<open>Parsing what is printed\<close>

lemma parse_dump:
  "\<And>n rest. jfuel v \<le> n \<Longrightarrow> ends_token rest \<Longrightarrow>
     parse_val n (text_mode (dump_val l v) @ rest) = Some (v, rest)"
  "\<And>n w rest. kvs \<noteq> [] \<Longrightarrow> members_fuel kvs \<le> n \<Longrightarrow> list_all is_ws w \<Longrightarrow>
     parse_members n (text_mode (dump_members l' kvs) @ w @ CHR ''}'' # rest) = Some (kvs, rest)"
proof (induction l v and l' kvs rule: dump_val_dump_members.induct)
  case (1 l m)
  show ?case
  proof -
    note f = "1.prems"(1) and e = "1.prems"(2)
    from f obtain n' where n: "n = Suc n'" by (cases n) auto
    obtain c cs where ns: "nat_str m = c # cs" and d: "digit_char c"
      using nat_str_Cons by blast
    have "parse_digits (nat_str m @ rest) = (m, rest)"
      using e by (simp add: ends_token_def parse_digits_nat_str)
    with d digit_char_not[OF d] have "parse_val n (nat_str m @ rest) = Some (JNum m, rest)"
      by (simp add: n ns skip_ws_Cons)
    then show "parse_val n (text_mode (dump_val l (JNum m)) @ rest) = Some (JNum m, rest)"
      by simp
  qed
next
  case (2 l str)
  show ?case
  proof -
    note f = "2.prems"(1)
    from f obtain n' where n: "n = Suc n'" by (cases n) auto
    have "parse_val n (dump_str str @ rest) = Some (JStr str, rest)"
      by (simp add: n dump_str_def skip_ws_Cons special_chars parse_str_body_dump)
    then show "parse_val n (text_mode (dump_val l (JStr str)) @ rest) = Some (JStr str, rest)"
      by simp
  qed
next
  case (3 l)
  show ?case
  proof -
    note f = "3.prems"(1)
    from f obtain n' where n: "n = Suc n'" by (cases n) auto
    show "parse_val n (text_mode (dump_val l (JObj [])) @ rest) = Some (JObj [], rest)"
      by (simp add: n skip_ws_Cons special_chars)
  qed
next
  case (4 l kv kvs)
  show ?case
  proof -
    note f = "4.prems"(1)
    from f obtain n' where n: "n = Suc n'" and f': "members_fuel (kv # kvs) \<le> n'" by (cases n) auto
    obtain cs where dm: "dump_members (Suc l) (kv # kvs) = CHR 0x22 # cs"
      using dump_members_Cons by blast
    let ?ms = "text_mode (dump_members (Suc l) (kv # kvs))"
    have inner: "parse_members n' (?ms @ (CHR 0x0D # newline_indent l) @ CHR ''}'' # rest) =
        Some (kv # kvs, rest)"
      using "4.IH" f' line_break_ws by blast
    have "skip_ws ((CHR 0x0D # newline_indent (Suc l)) @ ?ms @ (CHR 0x0D # newline_indent l) @ CHR ''}'' # rest) =
        ?ms @ (CHR 0x0D # newline_indent l) @ CHR ''}'' # rest"
      by (simp only: skip_ws_ws_append[OF line_break_ws]) (simp add: dm skip_ws_Cons special_chars)
    with inner dm
    show "parse_val n (text_mode (dump_val l (JObj (kv # kvs))) @ rest) = Some (JObj (kv # kvs), rest)"
      by (simp add: n skip_ws_Cons special_chars)
  qed
next
  case (5 l)
  then show ?case by simp
next
  case (6 l k v)
  show ?case
  proof -
    note f = "6.prems"(2) and w = "6.prems"(3)
    from f obtain n' where n: "n = Suc n'" and f': "jfuel v \<le> n'" by (cases n) auto
    have pv: "parse_val n' (CHR '' '' # text_mode (dump_val l v) @ w @ CHR ''}'' # rest) =
        Some (v, w @ CHR ''}'' # rest)"
      using parse_val_ws[of "[CHR '' '']"] "6.IH" f' ends_token_ws[OF w] by (simp add: special_chars)
    have sk: "skip_ws (w @ CHR ''}'' # rest) = CHR ''}'' # rest"
      using w by (simp add: skip_ws_ws_append skip_ws_Cons special_chars)
    show "parse_members n (text_mode (dump_members l [(k, v)]) @ w @ CHR ''}'' # rest) = Some ([(k, v)], rest)"
      using pv sk by (simp add: n dump_str_def skip_ws_Cons special_chars parse_str_body_dump)
  qed
next
  case (7 l k v va vb)
  show ?case
  proof -
    note f = "7.prems"(2) and w = "7.prems"(3)
    from f obtain n' where n: "n = Suc n'" and f1: "jfuel v \<le> n'" and f2: "members_fuel (va # vb) \<le> n'"
      by (cases n) auto
    let ?tail = "CHR '','' # (CHR 0x0D # newline_indent l) @ text_mode (dump_members l (va # vb)) @
      w @ CHR ''}'' # rest"
    have et: "ends_token ?tail" by (simp add: ends_token_def special_chars)
    have pv: "parse_val n' (CHR '' '' # text_mode (dump_val l v) @ ?tail) = Some (v, ?tail)"
      using parse_val_ws[of "[CHR '' '']"] "7.IH"(1)[OF f1 et] by (simp add: special_chars)
    have pm: "parse_members n' ((CHR 0x0D # newline_indent l) @ text_mode (dump_members l (va # vb)) @
        w @ CHR ''}'' # rest) = Some (va # vb, rest)"
      using parse_members_ws[OF line_break_ws] "7.IH"(2)[OF _ f2 w] by simp
    show "parse_members n (text_mode (dump_members l ((k, v) # va # vb)) @ w @ CHR ''}'' # rest) =
        Some ((k, v) # va # vb, rest)"
      using pv pm by (simp add: n dump_str_def skip_ws_Cons special_chars parse_str_body_dump)
  qed
qed

lemma jfuel_le_length:
  "jfuel v \<le> length (dump_val l v)"
  "members_fuel kvs \<le> length (dump_members l' kvs)"
proof (induction l v and l' kvs rule: dump_val_dump_members.induct)
  case (1 l n)
  then show ?case using nat_str_not_Nil[of n] by (cases "nat_str n") simp_all
qed (auto simp: dump_str_def newline_indent_def)

theorem json_roundtrip: "json_loads (text_mode (json_dumps v)) = Some v"
proof -
  have "jfuel v \<le> length (text_mode (dump_val 0 v))"
    using jfuel_le_length(1)[of v 0] length_text_mode[of "dump_val 0 v"] by linarith
  then have "parse_val (length (text_mode (dump_val 0 v))) (text_mode (dump_val 0 v) @ []) = Some (v, [])"
    by (rule parse_dump(1)) (simp add: ends_token_def)
  then show ?thesis by (simp add: json_loads_def json_dumps_def skip_ws_def)
qed

end
