(* ===== verification/Report.thy ===== *)
theory Report
  imports Console Json
begin

text \<open>
  The report and its sink: the \<open>results\<close> dict of
  \<^verbatim>\<open>src/PROD-CZFeaturesFlagsScript.py\<close> lines 109--113, the JSON value
  \<open>json.dump\<close> is given for it, and \<open>save_json\<close> (lines 132--155) over a small model
  of the file system: the set of existing directories and a map from file paths
  to their contents. The output path is a Windows path (\<open>OUTPUT_JSON_FILE\<close>,
  line 24), so \<open>os.path.dirname\<close> is \<open>ntpath.dirname\<close>. Each call of
  \<open>save_json\<close> that touches the file system (\<open>os.makedirs\<close>, \<open>open\<close>,
  \<open>json.dump\<close>) may raise, as a \<open>sink_fault\<close> of the environment says; every
  exception is caught at line 154. \<open>save_json\<close> also returns what it prints.
  The file is opened in text mode, so what reaches it is \<open>text_mode\<close> of the JSON
  text: each line ends in \<open>"\r\n"\<close>.
\<close>

text \<open>The \<open>results\<close> dict of lines 109--113.\<close>

record report =
  total_identical_ids :: nat
  disabled_false_sites_count :: nat
  feature_flags_counts :: "(string, counts) pydict"

text \<open>One counter dict \<open>{"true": t, "false": f}\<close>, keys in the order the
  \<open>defaultdict\<close> factory of line 82 creates them.\<close>

definition counts_json :: "counts \<Rightarrow> jval" where
  "counts_json c = JObj [(''true'', JNum (n_true c)), (''false'', JNum (n_false c))]"

text \<open>The value \<open>json.dump\<close> serialises: \<open>results\<close> after lines 148--149 have replaced the
  \<open>defaultdict\<close> by a plain dict with the same items in the same order.\<close>

definition report_json :: "report \<Rightarrow> jval" where
  "report_json r =
     JObj [(''total_identical_ids'', JNum (total_identical_ids r)),
           (''disabled_false_sites_count'', JNum (disabled_false_sites_count r)),
           (''feature_flags_counts'', JObj (map (\<lambda>(k, c). (k, counts_json c)) (feature_flags_counts r)))]"

text \<open>The file system \<open>save_json\<close> sees. Only the directories the code asks
  about are tracked; \<open>os.makedirs\<close> also creates missing parents, which no
  property reads.\<close>

record fs =
  fs_dirs :: "string set"
  fs_files :: "string \<Rightarrow> string option"

text \<open>Where \<open>save_json\<close> raises: \<open>os.makedirs\<close> (when it is called), \<open>open\<close>, or
  \<open>json.dump\<close> after writing \<open>n\<close> characters (disk full, a failed flush).\<close>

datatype sink_fault = Sink_ok | Mkdir_fails | Open_fails | Write_fails nat

text \<open>\<open>os.path.exists\<close>.\<close>

definition path_exists :: "fs \<Rightarrow> string \<Rightarrow> bool" where
  "path_exists s p \<longleftrightarrow> p \<in> fs_dirs s \<or> fs_files s p \<noteq> None"

text \<open>\<open>ntpath\<close>: separators, the drive of a \<open>X:\<close> path (UNC shares are not
  modelled), and \<open>dirname\<close>: the drive, then the text before the last
  separator with trailing separators removed unless that leaves nothing.\<close>

definition nt_sep :: "char \<Rightarrow> bool" where
  "nt_sep c \<longleftrightarrow> c = CHR 0x5C \<or> c = CHR ''/''"

definition nt_splitdrive :: "string \<Rightarrow> string \<times> string" where
  "nt_splitdrive p = (if 2 \<le> length p \<and> p ! 1 = CHR '':'' then (take 2 p, drop 2 p) else ([], p))"

definition nt_dirname :: "string \<Rightarrow> string" where
  "nt_dirname p =
     (let (d, q) = nt_splitdrive p;
          head = rev (dropWhile (\<lambda>c. \<not> nt_sep c) (rev q));
          stripped = rev (dropWhile nt_sep (rev head))
      in d @ (if stripped = [] then head else stripped))"

text \<open>\<open>os.makedirs(d)\<close>, and \<open>open(p, "w")\<close> followed by writes: opening truncates,
  and the file ends up holding the characters that reached it.\<close>

definition makedirs :: "string \<Rightarrow> fs \<Rightarrow> fs" where
  "makedirs d s = s\<lparr>fs_dirs := insert d (fs_dirs s)\<rparr>"

definition write_file :: "string \<Rightarrow> string \<Rightarrow> fs \<Rightarrow> fs" where
  "write_file p txt s = s\<lparr>fs_files := (fs_files s)(p \<mapsto> txt)\<rparr>"

text \<open>\<open>save_json(data, filepath)\<close>, lines 132--155: the file system afterwards, whether
  the \<open>try\<close> block ran to its end, and the lines printed (145, 153, 155). \<open>open\<close> fails
  by itself when the directory is missing (a file of that name blocks it) or the path
  is a directory.\<close>

definition save_json :: "string \<Rightarrow> sink_fault \<Rightarrow> fs \<Rightarrow> report \<Rightarrow> fs \<times> bool \<times> msg list" where
  "save_json p f s r =
     (let d = nt_dirname p;
          mk = (d \<noteq> [] \<and> \<not> path_exists s d)
      in if mk \<and> f = Mkdir_fails then (s, False, [Save_failed p])
         else
           (let s1 = (if mk then makedirs d s else s);
                out = (if mk then [Created_directory d] else [])
            in if f = Open_fails \<or> (d \<noteq> [] \<and> d \<notin> fs_dirs s1) \<or> p \<in> fs_dirs s1
               then (s1, False, out @ [Save_failed p])
               else
                 (let txt = text_mode (json_dumps (report_json r))
                  in case f of
                       Write_fails n \<Rightarrow> (write_file p (take n txt) s1, False, out @ [Save_failed p])
                     | _ \<Rightarrow> (write_file p txt s1, True, out @ [Saved_to p]))))"

text \<open>When \<open>open(filepath, "w")\<close> can succeed after the directory step: the
  directory is there or is created, and the path is not a directory.\<close>

definition sink_open_ok :: "string \<Rightarrow> fs \<Rightarrow> bool" where
  "sink_open_ok p s \<longleftrightarrow>
     (let d = nt_dirname p; mk = (d \<noteq> [] \<and> \<not> path_exists s d)
      in (d = [] \<or> d \<in> fs_dirs s \<or> mk) \<and> p \<notin> fs_dirs s \<and> (mk \<longrightarrow> p \<noteq> d))"

text \<open>When \<open>save_json\<close> runs to its end: no call raises.\<close>

definition sink_ok :: "string \<Rightarrow> sink_fault \<Rightarrow> fs \<Rightarrow> bool" where
  "sink_ok p f s \<longleftrightarrow>
     (f = Sink_ok \<or> (f = Mkdir_fails \<and> (nt_dirname p = [] \<or> path_exists s (nt_dirname p)))) \<and>
     sink_open_ok p s"

text \<open>The reader of the specification's round trip: a report from its JSON value.\<close>

definition counts_of_json :: "jval \<Rightarrow> counts option" where
  "counts_of_json v =
     (case v of
        JObj [(t, JNum a), (f, JNum b)] \<Rightarrow>
          if t = ''true'' \<and> f = ''false'' then Some \<lparr>n_true = a, n_false = b\<rparr> else None
      | _ \<Rightarrow> None)"

definition report_of_json :: "jval \<Rightarrow> report option" where
  "report_of_json v =
     (case v of
        JObj [(k1, JNum t), (k2, JNum d), (k3, JObj ffs)] \<Rightarrow>
          if k1 = ''total_identical_ids'' \<and> k2 = ''disabled_false_sites_count'' \<and>
             k3 = ''feature_flags_counts''
          then map_option (\<lambda>cs. \<lparr>total_identical_ids = t, disabled_false_sites_count = d,
                                  feature_flags_counts = cs\<rparr>)
                 (those (map (\<lambda>(k, c). map_option (Pair k) (counts_of_json c)) ffs))
          else None
      | _ \<Rightarrow> None)"

subsection \<open>The sink\<close>

lemma save_json_ok: "fst (snd (save_json p f s r)) = sink_ok p f s"
  by (cases f) (auto simp: save_json_def sink_ok_def sink_open_ok_def makedirs_def Let_def)

lemma save_json_file:
  "sink_open_ok p s \<Longrightarrow> f \<noteq> Open_fails \<Longrightarrow>
     \<not> (f = Mkdir_fails \<and> nt_dirname p \<noteq> [] \<and> \<not> path_exists s (nt_dirname p)) \<Longrightarrow>
     fs_files (fst (save_json p f s r)) p =
       Some (case f of Write_fails n \<Rightarrow> take n (text_mode (json_dumps (report_json r)))
                     | _ \<Rightarrow> text_mode (json_dumps (report_json r)))"
  by (cases f) (auto simp: save_json_def sink_open_ok_def makedirs_def write_file_def Let_def)

lemma save_json_other_files:
  "q \<noteq> p \<Longrightarrow> fs_files (fst (save_json p f s r)) q = fs_files s q"
  by (cases f) (simp_all add: save_json_def makedirs_def write_file_def Let_def)

lemma save_json_dirs:
  "fs_dirs (fst (save_json p f s r)) =
     (if nt_dirname p \<noteq> [] \<and> \<not> path_exists s (nt_dirname p) \<and> f \<noteq> Mkdir_fails
      then insert (nt_dirname p) (fs_dirs s) else fs_dirs s)"
proof (cases "nt_dirname p \<noteq> [] \<and> \<not> path_exists s (nt_dirname p)")
  case True
  then show ?thesis
    by (cases f) (simp_all add: save_json_def makedirs_def write_file_def Let_def)
next
  case False
  then show ?thesis
    by (cases f) (auto simp: save_json_def write_file_def Let_def)
qed

lemma save_json_log:
  "snd (snd (save_json p f s r)) =
     (if nt_dirname p \<noteq> [] \<and> \<not> path_exists s (nt_dirname p) \<and> f \<noteq> Mkdir_fails
      then [Created_directory (nt_dirname p)] else []) @
     [if sink_ok p f s then Saved_to p else Save_failed p]"
proof (cases "nt_dirname p \<noteq> [] \<and> \<not> path_exists s (nt_dirname p)")
  case True
  then show ?thesis
    by (cases f) (auto simp: save_json_def sink_ok_def sink_open_ok_def makedirs_def write_file_def Let_def)
next
  case False
  then show ?thesis
    by (cases f) (auto simp: save_json_def sink_ok_def sink_open_ok_def write_file_def Let_def)
qed

lemma sink_ok_file:
  "sink_ok p f s \<Longrightarrow> fs_files (fst (save_json p f s r)) p = Some (text_mode (json_dumps (report_json r)))"
  using save_json_file[of p s f r] by (auto simp: sink_ok_def)

text \<open>After a successful save the directory exists and the path is a file, so a second
  save with the same faults succeeds too.\<close>

lemma sink_ok_again:
  assumes "sink_ok p f s"
  shows "sink_ok p f (fst (save_json p f s r))"
  using assms by (auto simp: sink_ok_def sink_open_ok_def save_json_dirs path_exists_def Let_def)

subsection \<open>Reading the report back\<close>

lemma counts_of_json_counts_json [simp]: "counts_of_json (counts_json c) = Some c"
  by (simp add: counts_of_json_def counts_json_def)

lemma those_counts_json:
  "those (map (\<lambda>(k, c). map_option (Pair k) (counts_of_json c)) (map (\<lambda>(k, c). (k, counts_json c)) cs)) = Some cs"
  by (induction cs) auto

lemma report_of_json_report_json: "report_of_json (report_json r) = Some r"
  by (simp add: report_of_json_def report_json_def those_counts_json del: map_map)

lemma members_ok_counts: "members_ok (map (\<lambda>(k, c). (k, counts_json c)) cs)"
  by (induction cs) (auto simp: counts_json_def)

lemma report_json_keys_ok:
  "distinct (map fst (feature_flags_counts r)) \<Longrightarrow> keys_ok (report_json r)"
  by (simp add: report_json_def members_ok_counts comp_def case_prod_beta)

lemma sink_ok_dir:
  "sink_ok p f s \<Longrightarrow> nt_dirname p \<noteq> [] \<Longrightarrow> nt_dirname p \<in> fs_dirs (fst (save_json p f s r))"
  by (auto simp: save_json_dirs sink_ok_def sink_open_ok_def Let_def)

text \<open>C29: when no call raises, \<open>save_json\<close> reports success, the output file holds exactly the
  report's JSON text, with Windows line ends, whatever it held before, its directory exists, and
  no other file changes.\<close>

theorem save_json_success:
  assumes "sink_ok p f s"
  shows "fst (snd (save_json p f s r)) \<and>
         fs_files (fst (save_json p f s r)) p = Some (text_mode (json_dumps (report_json r))) \<and>
         (nt_dirname p \<noteq> [] \<longrightarrow> nt_dirname p \<in> fs_dirs (fst (save_json p f s r))) \<and>
         (\<forall>q. q \<noteq> p \<longrightarrow> fs_files (fst (save_json p f s r)) q = fs_files s q)"
  using assms by (simp add: save_json_ok sink_ok_file sink_ok_dir save_json_other_files)

theorem save_json_success_witness:
  "fs_files (fst (save_json ''C:/out/r.json'' Sink_ok \<lparr>fs_dirs = {}, fs_files = Map.empty\<rparr>
      \<lparr>total_identical_ids = 0, disabled_false_sites_count = 0, feature_flags_counts = []\<rparr>))
     ''C:/out/r.json'' =
   Some (text_mode (json_dumps (report_json \<lparr>total_identical_ids = 0, disabled_false_sites_count = 0,
     feature_flags_counts = []\<rparr>)))"
proof -
  have "sink_ok ''C:/out/r.json'' Sink_ok \<lparr>fs_dirs = {}, fs_files = Map.empty\<rparr>"
    by (simp add: sink_ok_def sink_open_ok_def nt_dirname_def nt_splitdrive_def nt_sep_def path_exists_def)
  from save_json_success[OF this] show ?thesis by blast
qed

end
