(* ===== verification/Loop.thy ===== *)
theory Loop
  imports Aggregate
begin

text \<open>
  The site loop of \<^verbatim>\<open>src/PROD-CZFeaturesFlagsScript.py\<close> lines 85--106 as a
  loop that can stop half-way. \<open>process_sites\<close> in \<open>Aggregate\<close> answers with the
  counters or the exception; what the operator sees also depends on the state the loop
  had reached when the exception left it, because the warnings of the sites already
  processed have been printed. \<open>run_sites\<close> is the loop returning that state with the
  exception, and \<open>run_cursor\<close> adds the exception the cursor raises after its last
  document. The lemmas relate both to \<open>aggregate\<close>: the loop without its state is
  \<open>aggregate\<close>, and \<open>run_cursor\<close> ends without exception exactly when \<open>aggregate\<close>
  succeeds.
\<close>

text \<open>The loop, keeping the state reached when a site raises. The counter increment of
  line 86 for the raising site is lost with the exception: nothing reads it.\<close>

fun run_sites :: "string \<Rightarrow> lookup \<Rightarrow> agg \<Rightarrow> doc list \<Rightarrow> agg \<times> exc option" where
  "run_sites ref lk st [] = (st, None)"
| "run_sites ref lk st (s # ss) =
     (case process_site ref lk st s of Inl e \<Rightarrow> (st, Some e) | Inr st' \<Rightarrow> run_sites ref lk st' ss)"

text \<open>The loop over the site cursor of lines 72--85: after the last document the cursor
  may still raise.\<close>

definition run_cursor :: "string \<Rightarrow> lookup \<Rightarrow> cursor \<Rightarrow> agg \<times> exc option" where
  "run_cursor ref lk cur =
     (case run_sites ref lk agg_init (cur_docs cur) of
        (st, None) \<Rightarrow> (st, cur_fail cur)
      | r \<Rightarrow> r)"

subsection \<open>The loop with its state against the loop with its result\<close>

lemma process_sites_run_sites:
  "process_sites ref lk st ss =
     (case run_sites ref lk st ss of (st', None) \<Rightarrow> Inr st' | (_, Some e) \<Rightarrow> Inl e)"
  by (induction ss arbitrary: st) (simp_all add: process_sites.simps split: sum.split)

lemma aggregate_run_cursor:
  "aggregate ref lk cur =
     (case run_cursor ref lk cur of (st, None) \<Rightarrow> Inr st | (_, Some e) \<Rightarrow> Inl e)"
  by (simp add: aggregate_def run_cursor_def process_sites_run_sites
      split: prod.split option.split)

lemma run_cursor_None_iff: "run_cursor ref lk cur = (st, None) \<longleftrightarrow> aggregate ref lk cur = Inr st"
  by (auto simp: aggregate_run_cursor split: prod.splits option.splits)

lemma run_cursor_aggregate_Inr: "aggregate ref lk cur = Inr st \<Longrightarrow> run_cursor ref lk cur = (st, None)"
  by (simp add: run_cursor_None_iff)

lemma run_cursor_Some_iff:
  "(\<exists>st. run_cursor ref lk cur = (st, Some e)) \<longleftrightarrow> aggregate ref lk cur = Inl e"
  by (auto simp: aggregate_run_cursor split: prod.splits option.splits)

end
