(* ===== verification/Pipeline.thy ===== *)
theory Pipeline
  imports Report Loop "HOL-Library.Multiset"
begin

text \<open>
  The scripts' \<open>main()\<close>, lines 30--126 of both \<^verbatim>\<open>src/PROD-CZFeaturesFlagsScript.py\<close>
  and \<^verbatim>\<open>src/PROD-WTFeaturesFlagsScript.py\<close>. The two copies differ only in the
  configuration collection's flags field and the site field that references it; the
  model is one pipeline over a \<open>pipeline_cfg\<close> with the two instances \<open>cz_cfg\<close> and
  \<open>wt_cfg\<close>, which also differ in the output path. The world a run sees is an
  \<open>env\<close>: the two collections, where the driver raises (client construction, ping,
  either cursor after some documents), where \<open>save_json\<close> raises, and the file
  system before the run. A run's result records whether a client was created and
  closed, the report the output file holds when \<open>save_json\<close> succeeded, how the run
  ended, the file system after it, and what it printed.
\<close>

record pipeline_cfg =
  cfg_flags_field :: string
  cfg_ref_field :: string
  cfg_output :: string

text \<open>\<open>OUTPUT_JSON_FILE\<close>, line 24: \<open>r"C:\\MongoDB\\<name>.json"\<close>.\<close>

definition win_path :: "string list \<Rightarrow> string" where
  "win_path parts = ''C:'' @ concat (map (\<lambda>x. CHR 0x5C # x) parts)"

definition cz_cfg :: pipeline_cfg where
  "cz_cfg = \<lparr>cfg_flags_field = ''FEATURES_FLAGS'', cfg_ref_field = ''server_env_id'',
     cfg_output = win_path [''MongoDB'', ''combined_analysis_results-PROD.json'']\<rparr>"

definition wt_cfg :: pipeline_cfg where
  "wt_cfg = \<lparr>cfg_flags_field = ''WT_FEATURES_FLAGS'', cfg_ref_field = ''platform_server_api_id'',
     cfg_output = win_path [''MongoDB'', ''Wt-FF-PROD.json'']\<rparr>"

record env =
  client_exc :: "exc option"
  ping_exc :: "exc option"
  config_coll :: "doc list"
  config_fault :: "(nat \<times> exc) option"
  site_coll :: "doc list"
  site_fault :: "(nat \<times> exc) option"
  save_fault :: sink_fault
  env_fs :: fs

text \<open>How a run ends: an \<open>except\<close> of the connection phase (lines 41--49), the early
  \<open>return\<close> of line 68, an \<open>except\<close> of the processing phase (lines 119--122), or
  the end of the \<open>try\<close> block after \<open>save_json\<close> (with whether \<open>save_json\<close> ran to its end).\<close>

datatype status =
    Connect_failed exc
  | No_ids
  | Processing_failed exc
  | Completed bool

record run =
  client_opened :: bool
  client_closed :: bool
  written :: "report option"
  status :: status
  run_fs :: fs
  console :: "msg list"

text \<open>Step 2, lines 54--61: the lookup from the configuration cursor.\<close>

definition config_lookup :: "pipeline_cfg \<Rightarrow> env \<Rightarrow> exc + lookup" where
  "config_lookup c e =
     read_lookup (cfg_flags_field c)
       (open_cursor (find_configs (cfg_flags_field c) (config_coll e)) (config_fault e))"

text \<open>Step 3, lines 72--78: the site cursor for the lookup's keys.\<close>

definition site_cursor :: "pipeline_cfg \<Rightarrow> env \<Rightarrow> lookup \<Rightarrow> cursor" where
  "site_cursor c e lk =
     open_cursor (find_sites (cfg_ref_field c) (map fst lk) (site_coll e)) (site_fault e)"

text \<open>Step 4, lines 109--113: the \<open>results\<close> dict from the lookup and the counters.\<close>

definition results :: "lookup \<Rightarrow> agg \<Rightarrow> report" where
  "results lk st = \<lparr>total_identical_ids = length lk, disabled_false_sites_count = disabled_false_count st,
     feature_flags_counts = feature_counts st\<rparr>"

text \<open>The processing \<open>try\<close> block, lines 51--122.\<close>

definition process :: "pipeline_cfg \<Rightarrow> env \<Rightarrow> report option \<times> status \<times> fs \<times> msg list" where
  "process c e =
     (case config_lookup c e of
        Inl ex \<Rightarrow> (None, Processing_failed ex, env_fs e, [Retrieving, process_except ex])
      | Inr lk \<Rightarrow>
          if length lk = 0 then (None, No_ids, env_fs e, [Retrieving, Total_ids 0, No_ids_found])
          else
            (let pre = [Retrieving, Total_ids (length lk), Querying, Processing]
             in case run_cursor (cfg_ref_field c) lk (site_cursor c e lk) of
                  (st, Some ex) \<Rightarrow>
                    (None, Processing_failed ex, env_fs e, pre @ map Warn (warnings st) @ [process_except ex])
                | (st, None) \<Rightarrow>
                    (let r = results lk st;
                         (s, ok, out) = save_json (cfg_output c) (save_fault e) (env_fs e) r
                     in (if ok then Some r else None, Completed ok, s,
                         pre @ map Warn (warnings st) @ out @ [All_saved (cfg_output c)]))))"

text \<open>\<open>main()\<close>, lines 30--126: the connection phase returns from its \<open>except\<close>
  clauses without closing; the processing phase closes in \<open>finally\<close>.\<close>

definition main :: "pipeline_cfg \<Rightarrow> env \<Rightarrow> run" where
  "main c e =
     (case client_exc e of
        Some ex \<Rightarrow> \<lparr>client_opened = False, client_closed = False, written = None,
                     status = Connect_failed ex, run_fs = env_fs e, console = [connect_except ex]\<rparr>
      | None \<Rightarrow>
          (case ping_exc e of
             Some ex \<Rightarrow> \<lparr>client_opened = True, client_closed = False, written = None,
                          status = Connect_failed ex, run_fs = env_fs e, console = [connect_except ex]\<rparr>
           | None \<Rightarrow>
               (let (out, st, s, log) = process c e
                in \<lparr>client_opened = True, client_closed = True, written = out, status = st, run_fs = s,
                     console = Connected # log @ [Connection_closed]\<rparr>)))"

text \<open>The environments of the specification's scenarios A--D (section 8), for the CZ script:
  one configuration document \<open>id1\<close> and one site referencing it, on a machine
  without the output directory.\<close>

definition env_a :: env where
  "env_a = \<lparr>client_exc = None, ping_exc = None,
     config_coll = [[(''_id'', BStr ''id1''), (''FEATURES_FLAGS'', BDoc [(''betaFeature'', BBool True)])]],
     config_fault = None,
     site_coll = [[(''_id'', BOid 1), (''server_env_id'', BStr ''id1''), (''disabled'', BBool False)]],
     site_fault = None, save_fault = Sink_ok,
     env_fs = \<lparr>fs_dirs = {}, fs_files = Map.empty\<rparr>\<rparr>"

text \<open>Two configurations and one active site for each, delivered in this order.\<close>

definition env_two :: env where
  "env_two = env_a\<lparr>
     config_coll := [[(''_id'', BStr ''id1''), (''FEATURES_FLAGS'', BDoc [(''alpha'', BBool True)])],
                    [(''_id'', BStr ''id2''), (''FEATURES_FLAGS'', BDoc [(''beta'', BBool False)])]],
     site_coll := [[(''_id'', BOid 1), (''server_env_id'', BStr ''id1''), (''disabled'', BBool False)],
                  [(''_id'', BOid 2), (''server_env_id'', BStr ''id2''), (''disabled'', BBool False)]]\<rparr>"

definition main_cz :: "env \<Rightarrow> run" where
  "main_cz = main cz_cfg"

definition main_wt :: "env \<Rightarrow> run" where
  "main_wt = main wt_cfg"

subsection \<open>Lemmas on the run\<close>


lemma open_cursor_ok:
  "cur_fail (open_cursor res f) = None \<longleftrightarrow> f = None"
  "cur_docs (open_cursor res None) = res" "cur_fail (open_cursor res None) = None"
  by (auto simp: open_cursor_def split: option.splits)

lemma config_lookup_Inr:
  "config_lookup c e = Inr lk \<Longrightarrow>
     config_fault e = None \<and> build_lookup (cfg_flags_field c) [] (find_configs (cfg_flags_field c) (config_coll e)) = Inr lk"
  by (auto simp: config_lookup_def read_lookup_Inr open_cursor_ok)

lemma main_writtenE:
  assumes "written (main c e) = Some r"
  obtains lk st where "client_exc e = None" "ping_exc e = None" "sink_ok (cfg_output c) (save_fault e) (env_fs e)"
    "config_lookup c e = Inr lk" "lk \<noteq> []"
    "aggregate (cfg_ref_field c) lk (site_cursor c e lk) = Inr st"
    "r = \<lparr>total_identical_ids = length lk, disabled_false_sites_count = disabled_false_count st,
          feature_flags_counts = feature_counts st\<rparr>"
  using assms
  by (auto simp: main_def process_def prod.case_eq_if save_json_ok Let_def results_def aggregate_run_cursor
      split: option.splits sum.splits if_splits prod.splits)

lemma site_cursor_docs:
  "aggregate (cfg_ref_field c) lk (site_cursor c e lk) = Inr st \<Longrightarrow>
     cur_docs (site_cursor c e lk) = find_sites (cfg_ref_field c) (map fst lk) (site_coll e)"
  by (auto dest!: aggregate_Inr simp: site_cursor_def open_cursor_ok)

lemma doc_id_project [simp]: "doc_id (project fs d) = doc_id d"
  by simp

lemma site_ref_project [simp]: "site_ref ref (project (ref # fs) d) = site_ref ref d"
  by (simp add: site_ref_def)

lemma site_flags_project [simp]: "site_flags ref lk (project (ref # fs) d) = site_flags ref lk d"
  by (simp add: site_flags_def)

lemma votes_find_sites:
  "votes ref lk (find_sites ref ids coll) f b = votes ref lk (filter (site_filter ref ids) coll) f b"
  by (simp add: votes_def find_sites_def comp_def)

lemma tally_report:
  "pd_get id (feature_counts st) f zero_counts = tally st f"
  by (simp add: tally_def)

lemma main_written_sites:
  assumes "config_lookup c e = Inr lk" and "written (main c e) = Some r"
  obtains st where
    "process_sites (cfg_ref_field c) lk agg_init (find_sites (cfg_ref_field c) (map fst lk) (site_coll e)) = Inr st"
    "r = \<lparr>total_identical_ids = length lk, disabled_false_sites_count = disabled_false_count st,
          feature_flags_counts = feature_counts st\<rparr>"
    "lk \<noteq> []"
  using assms(2)
proof (rule main_writtenE)
  fix lk' st
  assume lk': "config_lookup c e = Inr lk'" and ne: "lk' \<noteq> []"
    and agg: "aggregate (cfg_ref_field c) lk' (site_cursor c e lk') = Inr st"
    and r: "r = \<lparr>total_identical_ids = length lk', disabled_false_sites_count = disabled_false_count st,
          feature_flags_counts = feature_counts st\<rparr>"
  assume that: "\<And>st. process_sites (cfg_ref_field c) lk agg_init (find_sites (cfg_ref_field c) (map fst lk) (site_coll e)) = Inr st \<Longrightarrow>
       r = \<lparr>total_identical_ids = length lk, disabled_false_sites_count = disabled_false_count st,
          feature_flags_counts = feature_counts st\<rparr> \<Longrightarrow> lk \<noteq> [] \<Longrightarrow> thesis"
  from lk' assms(1) have "lk' = lk" by simp
  moreover from agg have "process_sites (cfg_ref_field c) lk' agg_init (cur_docs (site_cursor c e lk')) = Inr st"
    by (simp add: aggregate_Inr)
  ultimately show thesis
    using r ne site_cursor_docs[OF agg] by (intro that[of st]) simp_all
qed

lemma configs_flags_ok_lookup:
  assumes "config_lookup c e = Inr lk"
    and "list_all (\<lambda>d. flags_ok (doc_flags (cfg_flags_field c) d)) (config_coll e)"
  shows "list_all (flags_ok \<circ> snd) lk"
proof -
  from assms(1) have b: "build_lookup (cfg_flags_field c) [] (find_configs (cfg_flags_field c) (config_coll e)) = Inr lk"
    by (simp add: config_lookup_Inr)
  from assms(2) have "list_all (\<lambda>d. flags_ok (doc_flags (cfg_flags_field c) d)) (find_configs (cfg_flags_field c) (config_coll e))"
    by (simp add: find_configs_def list_all_iff)
  moreover have "list_all (flags_ok \<circ> snd) ([] :: lookup)" by simp
  ultimately show ?thesis using b by (blast intro: build_lookup_values)
qed

text \<open>C1: end to end, each flag's counts in the written report are the votes of the active matched sites.\<close>

theorem main_tallies:
  assumes "config_lookup c e = Inr lk" and "written (main c e) = Some r"
  shows "n_true (pd_get id (feature_flags_counts r) f zero_counts) =
           votes (cfg_ref_field c) lk (filter (site_filter (cfg_ref_field c) (map fst lk)) (site_coll e)) f True \<and>
         n_false (pd_get id (feature_flags_counts r) f zero_counts) =
           votes (cfg_ref_field c) lk (filter (site_filter (cfg_ref_field c) (map fst lk)) (site_coll e)) f False"
  using assms
proof (rule main_written_sites)
  fix st
  assume "process_sites (cfg_ref_field c) lk agg_init (find_sites (cfg_ref_field c) (map fst lk) (site_coll e)) = Inr st"
    and "r = \<lparr>total_identical_ids = length lk, disabled_false_sites_count = disabled_false_count st,
          feature_flags_counts = feature_counts st\<rparr>"
  then show ?thesis
    by (simp add: process_sites_true process_sites_false tally_report votes_find_sites)
qed

text \<open>C2: the reported count of active sites is the number of site documents the query filter matches.\<close>

theorem main_active_count:
  assumes "config_lookup c e = Inr lk" and "written (main c e) = Some r"
  shows "disabled_false_sites_count r = length (filter (site_filter (cfg_ref_field c) (map fst lk)) (site_coll e))"
  using assms
proof (rule main_written_sites)
  fix st
  assume "process_sites (cfg_ref_field c) lk agg_init (find_sites (cfg_ref_field c) (map fst lk) (site_coll e)) = Inr st"
    and "r = \<lparr>total_identical_ids = length lk, disabled_false_sites_count = disabled_false_count st,
          feature_flags_counts = feature_counts st\<rparr>"
  then show ?thesis by (simp add: process_sites_count find_sites_def)
qed

text \<open>C3: when the configuration flags are dicts, no flag's true plus false count exceeds the active-site count.\<close>

theorem main_tally_bound:
  assumes "list_all (\<lambda>d. flags_ok (doc_flags (cfg_flags_field c) d)) (config_coll e)"
    and "written (main c e) = Some r"
  shows "n_true (pd_get id (feature_flags_counts r) f zero_counts) +
           n_false (pd_get id (feature_flags_counts r) f zero_counts) \<le> disabled_false_sites_count r"
  using assms(2)
proof (rule main_writtenE)
  fix lk st
  assume lk: "config_lookup c e = Inr lk"
    and agg: "aggregate (cfg_ref_field c) lk (site_cursor c e lk) = Inr st"
    and r: "r = \<lparr>total_identical_ids = length lk, disabled_false_sites_count = disabled_false_count st,
          feature_flags_counts = feature_counts st\<rparr>"
  from agg have p: "process_sites (cfg_ref_field c) lk agg_init (cur_docs (site_cursor c e lk)) = Inr st"
    by (simp add: aggregate_Inr)
  from configs_flags_ok_lookup[OF lk assms(1)] have
    "votes (cfg_ref_field c) lk (cur_docs (site_cursor c e lk)) f True +
       votes (cfg_ref_field c) lk (cur_docs (site_cursor c e lk)) f False \<le> length (cur_docs (site_cursor c e lk))"
    by (rule votes_bound)
  with p r show ?thesis
    by (simp add: process_sites_true process_sites_false process_sites_count tally_report)
qed

text \<open>C18: the reported total is the number of configuration ids up to Python equality.\<close>

theorem main_total_ids:
  assumes "written (main c e) = Some r"
  shows "total_identical_ids r = card (py_key ` doc_id ` set (config_coll e))"
  using assms
proof (rule main_writtenE)
  fix lk st
  assume lk: "config_lookup c e = Inr lk"
    and r: "r = \<lparr>total_identical_ids = length lk, disabled_false_sites_count = disabled_false_count st,
          feature_flags_counts = feature_counts st\<rparr>"
  from lk have b: "build_lookup (cfg_flags_field c) [] (find_configs (cfg_flags_field c) (config_coll e)) = Inr lk"
    by (simp add: config_lookup_Inr)
  have "length lk = card (dom (pd_abs py_key lk))"
    using build_lookup_wf[OF b] by (simp add: pd_wf_length_card)
  also have "\<dots> = card (py_key ` doc_id ` set (find_configs (cfg_flags_field c) (config_coll e)))"
    using build_lookup_dom[OF b] by (simp add: pd_abs_def)
  also have "\<dots> = card (py_key ` doc_id ` set (config_coll e))"
    by (simp add: find_configs_def image_image)
  finally show ?thesis using r by simp
qed

text \<open>C8: a client that was created and answered the ping is closed on every path.\<close>

theorem main_closes:
  "client_exc e = None \<Longrightarrow> ping_exc e = None \<Longrightarrow> client_opened (main c e) \<and> client_closed (main c e)"
  by (simp add: main_def split: prod.split)

text \<open>C9: a failed ping returns from main with the created client left open.\<close>

theorem main_ping_failure_leaks:
  "client_exc e = None \<Longrightarrow> ping_exc e = Some ex \<Longrightarrow>
     client_opened (main c e) \<and> \<not> client_closed (main c e) \<and> status (main c e) = Connect_failed ex"
  by (simp add: main_def)

text \<open>C23: an empty configuration collection ends the run at line 68 with no file and the client closed.\<close>

theorem main_no_ids:
  "client_exc e = None \<Longrightarrow> ping_exc e = None \<Longrightarrow> config_fault e = None \<Longrightarrow> config_coll e = [] \<Longrightarrow>
     main c e = \<lparr>client_opened = True, client_closed = True, written = None, status = No_ids,
       run_fs = env_fs e,
       console = [Connected, Retrieving, Total_ids 0, No_ids_found, Connection_closed]\<rparr>"
  by (simp add: main_def process_def config_lookup_def read_lookup_def open_cursor_def find_configs_def)

lemma site_cursor_aggregate_ok:
  assumes "site_fault e = None"
    and "refs_hashable (cfg_ref_field c) (find_sites (cfg_ref_field c) (map fst lk) (site_coll e))"
  obtains st where "aggregate (cfg_ref_field c) lk (site_cursor c e lk) = Inr st"
proof -
  from assms(2) obtain st where
    "process_sites (cfg_ref_field c) lk agg_init (find_sites (cfg_ref_field c) (map fst lk) (site_coll e)) = Inr st"
    using process_sites_Inr_iff by blast
  with assms(1) have "aggregate (cfg_ref_field c) lk (site_cursor c e lk) = Inr st"
    by (simp add: aggregate_def site_cursor_def open_cursor_ok)
  then show thesis by (rule that)
qed

text \<open>C7: a report is written exactly when connection, both cursors, the lookup, every site reference and the save succeed.\<close>

theorem main_written_iff:
  "written (main c e) \<noteq> None \<longleftrightarrow>
     client_exc e = None \<and> ping_exc e = None \<and> sink_ok (cfg_output c) (save_fault e) (env_fs e) \<and>
     (\<exists>lk. config_lookup c e = Inr lk \<and> lk \<noteq> [] \<and> site_fault e = None \<and>
        refs_hashable (cfg_ref_field c) (find_sites (cfg_ref_field c) (map fst lk) (site_coll e)))"
  (is "?w \<longleftrightarrow> ?ok")
proof
  assume ?w
  then obtain r where "written (main c e) = Some r" by blast
  then show ?ok
  proof (rule main_writtenE)
    fix lk st
    assume conn: "client_exc e = None" "ping_exc e = None" "sink_ok (cfg_output c) (save_fault e) (env_fs e)"
      and lk: "config_lookup c e = Inr lk" "lk \<noteq> []"
      and agg: "aggregate (cfg_ref_field c) lk (site_cursor c e lk) = Inr st"
    from agg have fail: "cur_fail (site_cursor c e lk) = None"
      and p: "process_sites (cfg_ref_field c) lk agg_init (cur_docs (site_cursor c e lk)) = Inr st"
      by (simp_all add: aggregate_Inr)
    from fail have "site_fault e = None" by (simp add: site_cursor_def open_cursor_ok)
    moreover from p have "refs_hashable (cfg_ref_field c) (cur_docs (site_cursor c e lk))"
      using process_sites_Inr_iff by blast
    then have "refs_hashable (cfg_ref_field c) (find_sites (cfg_ref_field c) (map fst lk) (site_coll e))"
      by (simp add: site_cursor_docs[OF agg])
    ultimately have "site_fault e = None \<and>
      refs_hashable (cfg_ref_field c) (find_sites (cfg_ref_field c) (map fst lk) (site_coll e))" by blast
    with conn lk show ?ok by blast
  qed
next
  assume ?ok
  then obtain lk where conn: "client_exc e = None" "ping_exc e = None" "sink_ok (cfg_output c) (save_fault e) (env_fs e)"
    and lk: "config_lookup c e = Inr lk" "lk \<noteq> []"
    and sites: "site_fault e = None"
      "refs_hashable (cfg_ref_field c) (find_sites (cfg_ref_field c) (map fst lk) (site_coll e))"
    by blast
  from sites obtain st where "aggregate (cfg_ref_field c) lk (site_cursor c e lk) = Inr st"
    by (rule site_cursor_aggregate_ok)
  with conn lk show ?w
    by (simp add: main_def process_def prod.case_eq_if save_json_ok Let_def results_def run_cursor_aggregate_Inr)
qed

text \<open>C22: a failed save still ends the run as completed, with no file written.\<close>

theorem main_save_failure:
  assumes "client_exc e = None" and "ping_exc e = None" and "\<not> sink_ok (cfg_output c) (save_fault e) (env_fs e)"
    and "config_lookup c e = Inr lk" and "lk \<noteq> []" and "site_fault e = None"
    and "refs_hashable (cfg_ref_field c) (find_sites (cfg_ref_field c) (map fst lk) (site_coll e))"
  shows "status (main c e) = Completed False \<and> written (main c e) = None \<and> client_closed (main c e)"
proof -
  from assms(6,7) obtain st where "aggregate (cfg_ref_field c) lk (site_cursor c e lk) = Inr st"
    by (rule site_cursor_aggregate_ok)
  with assms(1-5) show ?thesis
    by (simp add: main_def process_def prod.case_eq_if save_json_ok results_def run_cursor_aggregate_Inr Let_def)
qed

lemma main_completed:
  assumes "client_exc e = None" and "ping_exc e = None" and "config_lookup c e = Inr lk" and "lk \<noteq> []"
    and "aggregate (cfg_ref_field c) lk (site_cursor c e lk) = Inr st"
  shows "main c e =
    \<lparr>client_opened = True, client_closed = True,
     written = (if sink_ok (cfg_output c) (save_fault e) (env_fs e) then Some (results lk st) else None),
     status = Completed (sink_ok (cfg_output c) (save_fault e) (env_fs e)),
     run_fs = fst (save_json (cfg_output c) (save_fault e) (env_fs e) (results lk st)),
     console = Connected # [Retrieving, Total_ids (length lk), Querying, Processing] @ map Warn (warnings st) @
       snd (snd (save_json (cfg_output c) (save_fault e) (env_fs e) (results lk st))) @
       [All_saved (cfg_output c), Connection_closed]\<rparr>"
  using assms by (simp add: main_def process_def prod.case_eq_if save_json_ok Let_def run_cursor_aggregate_Inr)

lemma main_failed:
  assumes "client_exc e = None" and "ping_exc e = None" and "config_lookup c e = Inr lk" and "lk \<noteq> []"
    and "run_cursor (cfg_ref_field c) lk (site_cursor c e lk) = (st, Some ex)"
  shows "main c e =
    \<lparr>client_opened = True, client_closed = True, written = None, status = Processing_failed ex,
     run_fs = env_fs e,
     console = Connected # [Retrieving, Total_ids (length lk), Querying, Processing] @ map Warn (warnings st) @
       [process_except ex, Connection_closed]\<rparr>"
  using assms by (simp add: main_def process_def)

lemma report_text_roundtrip:
  "Option.bind (json_loads (text_mode (json_dumps (report_json r)))) report_of_json = Some r"
  by (simp add: json_roundtrip report_of_json_report_json)

text \<open>C24: the file a run leaves at the output path, parsed back with \<open>json.loads\<close>,
  gives exactly the report the run wrote.\<close>

theorem main_file_roundtrip:
  assumes "written (main c e) = Some r"
  shows "\<exists>txt. fs_files (run_fs (main c e)) (cfg_output c) = Some txt \<and>
           Option.bind (json_loads txt) report_of_json = Some r"
  using assms
proof (rule main_writtenE)
  fix lk st
  assume conn: "client_exc e = None" "ping_exc e = None" and ok: "sink_ok (cfg_output c) (save_fault e) (env_fs e)"
    and lk: "config_lookup c e = Inr lk" "lk \<noteq> []"
    and agg: "aggregate (cfg_ref_field c) lk (site_cursor c e lk) = Inr st"
    and r: "r = \<lparr>total_identical_ids = length lk, disabled_false_sites_count = disabled_false_count st,
          feature_flags_counts = feature_counts st\<rparr>"
  from r have r': "r = results lk st" by (simp add: results_def)
  have "fs_files (run_fs (main c e)) (cfg_output c) = Some (text_mode (json_dumps (report_json r)))"
    using main_completed[OF conn lk agg] sink_ok_file[OF ok] r' by simp
  then show ?thesis using report_text_roundtrip by blast
qed

text \<open>C25: when \<open>json.dump\<close> raises after \<open>n\<close> characters, the run still ends as completed,
  and the output file holds the first \<open>n\<close> characters of the report's text as the
  text-mode stream writes it: the
  file is truncated by \<open>open\<close> before the write, and nothing restores it.\<close>

theorem main_partial_file:
  assumes "client_exc e = None" and "ping_exc e = None" and "config_lookup c e = Inr lk" and "lk \<noteq> []"
    and "aggregate (cfg_ref_field c) lk (site_cursor c e lk) = Inr st"
    and "save_fault e = Write_fails n" and "sink_open_ok (cfg_output c) (env_fs e)"
  shows "status (main c e) = Completed False \<and> written (main c e) = None \<and>
         fs_files (run_fs (main c e)) (cfg_output c) = Some (take n (text_mode (json_dumps (report_json (results lk st)))))"
proof -
  have "\<not> sink_ok (cfg_output c) (save_fault e) (env_fs e)" using assms(6) by (simp add: sink_ok_def)
  moreover have "fs_files (fst (save_json (cfg_output c) (save_fault e) (env_fs e) (results lk st))) (cfg_output c) =
      Some (take n (text_mode (json_dumps (report_json (results lk st)))))"
    using save_json_file[OF assms(7)] assms(6) by simp
  ultimately show ?thesis using main_completed[OF assms(1-5)] by simp
qed

text \<open>C26: a run changes no file other than the output file.\<close>

theorem main_other_files:
  "q \<noteq> cfg_output c \<Longrightarrow> fs_files (run_fs (main c e)) q = fs_files (env_fs e) q"
  by (auto simp: main_def process_def Let_def prod.case_eq_if save_json_other_files
      split: option.splits sum.splits)

lemma votes_mset:
  assumes "mset ss = mset ss'"
  shows "votes ref lk ss f b = votes ref lk ss' f b"
  unfolding votes_def by (simp only: sum_mset_sum_list[symmetric] mset_map assms)

lemma config_lookup_site_coll [simp]: "config_lookup c (e\<lparr>site_coll := ss\<rparr>) = config_lookup c e"
  by (simp add: config_lookup_def)

text \<open>C27: the order in which the store delivers the sites changes none of the counts of a
  written report nor its set of flags.\<close>

theorem main_order_independent:
  assumes "mset ss = mset (site_coll e)"
    and "written (main c e) = Some r" and "written (main c (e\<lparr>site_coll := ss\<rparr>)) = Some r'"
  shows "total_identical_ids r' = total_identical_ids r \<and>
         disabled_false_sites_count r' = disabled_false_sites_count r \<and>
         pd_get id (feature_flags_counts r') f zero_counts = pd_get id (feature_flags_counts r) f zero_counts \<and>
         fst ` set (feature_flags_counts r') = fst ` set (feature_flags_counts r)"
proof -
  let ?ref = "cfg_ref_field c"
  from assms(2) obtain lk where lk: "config_lookup c e = Inr lk" by (rule main_writtenE) blast
  then have lk': "config_lookup c (e\<lparr>site_coll := ss\<rparr>) = Inr lk" by simp
  let ?P = "site_filter ?ref (map fst lk)"
  obtain st where
    p: "process_sites ?ref lk agg_init (find_sites ?ref (map fst lk) (site_coll e)) = Inr st"
    and r: "r = \<lparr>total_identical_ids = length lk, disabled_false_sites_count = disabled_false_count st,
          feature_flags_counts = feature_counts st\<rparr>"
    by (rule main_written_sites[OF lk assms(2)]) blast
  obtain st' where
    p'': "process_sites ?ref lk agg_init (find_sites ?ref (map fst lk) (site_coll (e\<lparr>site_coll := ss\<rparr>))) = Inr st'"
    and r': "r' = \<lparr>total_identical_ids = length lk, disabled_false_sites_count = disabled_false_count st',
          feature_flags_counts = feature_counts st'\<rparr>"
    by (rule main_written_sites[OF lk' assms(3)]) blast
  from p'' have p': "process_sites ?ref lk agg_init (find_sites ?ref (map fst lk) ss) = Inr st'" by simp
  have m: "mset (filter ?P ss) = mset (filter ?P (site_coll e))" using assms(1) by simp
  then have len: "length (filter ?P ss) = length (filter ?P (site_coll e))"
    by (rule mset_eq_length)
  have "set (filter ?P ss) = set (filter ?P (site_coll e))"
    using m by (rule mset_eq_setD)
  then have sets: "set (find_sites ?ref (map fst lk) ss) = set (find_sites ?ref (map fst lk) (site_coll e))"
    by (simp add: find_sites_def)
  have "n_true (tally st' f) = n_true (tally st f)" "n_false (tally st' f) = n_false (tally st f)"
    using process_sites_true[OF p] process_sites_true[OF p'] process_sites_false[OF p]
      process_sites_false[OF p'] votes_mset[OF m]
    by (simp_all add: votes_find_sites)
  then have "tally st' f = tally st f" by (cases "tally st' f", cases "tally st f") simp
  then have "pd_get id (feature_counts st') f zero_counts = pd_get id (feature_counts st) f zero_counts"
    by (simp only: tally_def)
  moreover have "disabled_false_count st' = disabled_false_count st"
    using process_sites_count[OF p] process_sites_count[OF p'] len by (simp add: find_sites_def)
  moreover have "fst ` set (feature_counts st') = fst ` set (feature_counts st)"
    using process_sites_keys[OF p] process_sites_keys[OF p'] sets by simp
  ultimately show ?thesis unfolding r r' report.select_convs by (intro conjI refl) assumption+
qed

text \<open>C28: the report a run writes is a JSON object without duplicate keys at any level:
  each flag has one counter dict.\<close>

theorem main_report_keys_ok:
  assumes "written (main c e) = Some r"
  shows "keys_ok (report_json r)"
  using assms
proof (rule main_writtenE)
  fix lk st
  assume agg: "aggregate (cfg_ref_field c) lk (site_cursor c e lk) = Inr st"
    and r: "r = \<lparr>total_identical_ids = length lk, disabled_false_sites_count = disabled_false_count st,
          feature_flags_counts = feature_counts st\<rparr>"
  from agg have "process_sites (cfg_ref_field c) lk agg_init (cur_docs (site_cursor c e lk)) = Inr st"
    by (simp add: aggregate_Inr)
  then have "pd_wf id (feature_counts st)"
    by (rule process_sites_wf) (simp add: pd_wf_def)
  then show ?thesis using r by (intro report_json_keys_ok) (simp add: pd_wf_def)
qed

lemma sink_ok_log:
  "sink_ok p f s \<Longrightarrow>
     snd (snd (save_json p f s r)) =
       (if nt_dirname p \<noteq> [] \<and> \<not> path_exists s (nt_dirname p)
        then [Created_directory (nt_dirname p)] else []) @ [Saved_to p]"
  by (auto simp: save_json_log sink_ok_def)

text \<open>C30: a run that writes its report prints, in order: the connection message, the
  retrieval header, the number of configuration ids, the query and processing headers, one
  warning per skipped flag or non-dict flag set of the matched sites in delivery order, the
  created directory if any, and the success message twice (once in \<open>save_json\<close>, once
  in \<open>main\<close>), then the closing message.\<close>

theorem main_console_completed:
  assumes "written (main c e) = Some r"
  shows "\<exists>lk. config_lookup c e = Inr lk \<and>
     console (main c e) =
       Connected # Retrieving # Total_ids (total_identical_ids r) # Querying # Processing #
       map Warn (concat (map (site_warnings (cfg_ref_field c) lk)
                         (find_sites (cfg_ref_field c) (map fst lk) (site_coll e)))) @
       (if nt_dirname (cfg_output c) \<noteq> [] \<and> \<not> path_exists (env_fs e) (nt_dirname (cfg_output c))
        then [Created_directory (nt_dirname (cfg_output c))] else []) @
       [Saved_to (cfg_output c), All_saved (cfg_output c), Connection_closed]"
  using assms
proof (rule main_writtenE)
  fix lk st
  assume conn: "client_exc e = None" "ping_exc e = None" and ok: "sink_ok (cfg_output c) (save_fault e) (env_fs e)"
    and lk: "config_lookup c e = Inr lk" "lk \<noteq> []"
    and agg: "aggregate (cfg_ref_field c) lk (site_cursor c e lk) = Inr st"
    and r: "r = \<lparr>total_identical_ids = length lk, disabled_false_sites_count = disabled_false_count st,
          feature_flags_counts = feature_counts st\<rparr>"
  from agg have "process_sites (cfg_ref_field c) lk agg_init (cur_docs (site_cursor c e lk)) = Inr st"
    by (simp add: aggregate_Inr)
  then have "warnings st = concat (map (site_warnings (cfg_ref_field c) lk)
                         (find_sites (cfg_ref_field c) (map fst lk) (site_coll e)))"
    using process_sites_warnings site_cursor_docs[OF agg] by fastforce
  with main_completed[OF conn lk agg] sink_ok_log[OF ok] ok r lk(1) show ?thesis
    by simp
qed

text \<open>C31: when \<open>save_json\<close> fails after the processing succeeded, the run prints the failure
  and then, in \<open>main\<close>, that all results have been saved.\<close>

theorem main_console_save_failure:
  assumes "client_exc e = None" and "ping_exc e = None" and "\<not> sink_ok (cfg_output c) (save_fault e) (env_fs e)"
    and "config_lookup c e = Inr lk" and "lk \<noteq> []" and "site_fault e = None"
    and "refs_hashable (cfg_ref_field c) (find_sites (cfg_ref_field c) (map fst lk) (site_coll e))"
  shows "\<exists>pre. console (main c e) = pre @ [Save_failed (cfg_output c), All_saved (cfg_output c), Connection_closed]"
proof -
  from assms(6,7) obtain st where agg: "aggregate (cfg_ref_field c) lk (site_cursor c e lk) = Inr st"
    by (rule site_cursor_aggregate_ok)
  have "snd (snd (save_json (cfg_output c) (save_fault e) (env_fs e) (results lk st))) =
      (if nt_dirname (cfg_output c) \<noteq> [] \<and> \<not> path_exists (env_fs e) (nt_dirname (cfg_output c)) \<and>
          save_fault e \<noteq> Mkdir_fails
       then [Created_directory (nt_dirname (cfg_output c))] else []) @ [Save_failed (cfg_output c)]"
    using assms(3) by (simp add: save_json_log)
  with main_completed[OF assms(1,2,4,5) agg] show ?thesis by simp
qed

lemma config_lookup_env_fs [simp]: "config_lookup c (e\<lparr>env_fs := s\<rparr>) = config_lookup c e"
  by (simp add: config_lookup_def)

lemma site_cursor_env_fs [simp]: "site_cursor c (e\<lparr>env_fs := s\<rparr>) lk = site_cursor c e lk"
  by (simp add: site_cursor_def)

text \<open>C21: running the pipeline a second time against the unchanged store, on the file system
  the first run left, writes the same report and leaves a byte-identical output file.\<close>

theorem main_idempotent:
  assumes "written (main c e) = Some r"
  shows "written (main c (e\<lparr>env_fs := run_fs (main c e)\<rparr>)) = Some r \<and>
         fs_files (run_fs (main c (e\<lparr>env_fs := run_fs (main c e)\<rparr>))) (cfg_output c) =
         fs_files (run_fs (main c e)) (cfg_output c)"
  using assms
proof (rule main_writtenE)
  fix lk st
  assume conn: "client_exc e = None" "ping_exc e = None" and ok: "sink_ok (cfg_output c) (save_fault e) (env_fs e)"
    and lk: "config_lookup c e = Inr lk" "lk \<noteq> []"
    and agg: "aggregate (cfg_ref_field c) lk (site_cursor c e lk) = Inr st"
    and r: "r = \<lparr>total_identical_ids = length lk, disabled_false_sites_count = disabled_false_count st,
          feature_flags_counts = feature_counts st\<rparr>"
  let ?s1 = "fst (save_json (cfg_output c) (save_fault e) (env_fs e) (results lk st))"
  let ?e2 = "e\<lparr>env_fs := ?s1\<rparr>"
  have first: "main c e = \<lparr>client_opened = True, client_closed = True, written = Some (results lk st),
      status = Completed True, run_fs = ?s1,
      console = Connected # [Retrieving, Total_ids (length lk), Querying, Processing] @ map Warn (warnings st) @
       snd (snd (save_json (cfg_output c) (save_fault e) (env_fs e) (results lk st))) @
       [All_saved (cfg_output c), Connection_closed]\<rparr>"
    using main_completed[OF conn lk agg] ok by simp
  have ok2: "sink_ok (cfg_output c) (save_fault ?e2) (env_fs ?e2)"
    using sink_ok_again[OF ok] by simp
  have "main c ?e2 = \<lparr>client_opened = True, client_closed = True, written = Some (results lk st),
      status = Completed True, run_fs = fst (save_json (cfg_output c) (save_fault e) ?s1 (results lk st)),
      console = Connected # [Retrieving, Total_ids (length lk), Querying, Processing] @ map Warn (warnings st) @
       snd (snd (save_json (cfg_output c) (save_fault e) ?s1 (results lk st))) @
       [All_saved (cfg_output c), Connection_closed]\<rparr>"
    using main_completed[of ?e2 c lk st] conn lk agg ok2 by simp
  moreover have "fs_files (fst (save_json (cfg_output c) (save_fault e) ?s1 (results lk st))) (cfg_output c) =
      fs_files ?s1 (cfg_output c)"
    using sink_ok_file[OF ok2[simplified]] sink_ok_file[OF ok] by simp
  ultimately show ?thesis using first r by (simp add: results_def)
qed

lemmas sink_eval = sink_ok_def sink_open_ok_def nt_dirname_def nt_splitdrive_def nt_sep_def
  path_exists_def win_path_def

lemmas pipeline_eval = main_def process_def results_def config_lookup_def site_cursor_def run_cursor_def
  prod.case_eq_if save_json_ok sink_eval
  read_lookup_def open_cursor_def find_configs_def find_sites_def project_def site_filter_def
  mongo_in_match_def agg_eval cz_cfg_def wt_cfg_def

lemma config_lookup_env_a:
  "config_lookup cz_cfg env_a = Inr [(BStr ''id1'', BDoc [(''betaFeature'', BBool True)])]"
  by (simp add: pipeline_eval env_a_def)

lemmas scenario_eval = pipeline_eval env_a_def votes_def site_flags_def site_ref_def

theorem main_tallies_witness:
  "\<exists>r. written (main cz_cfg env_a) = Some r \<and>
     n_true (pd_get id (feature_flags_counts r) ''betaFeature'' zero_counts) = 1 \<and>
     n_false (pd_get id (feature_flags_counts r) ''betaFeature'' zero_counts) = 0"
proof -
  obtain r where w: "written (main cz_cfg env_a) = Some r" by (simp add: scenario_eval)
  from main_tallies[OF config_lookup_env_a w, of "''betaFeature''"] w show ?thesis
    by (simp add: scenario_eval)
qed

theorem main_active_count_witness:
  "\<exists>r. written (main cz_cfg env_a) = Some r \<and> disabled_false_sites_count r = 1"
proof -
  obtain r where w: "written (main cz_cfg env_a) = Some r" by (simp add: scenario_eval)
  from main_active_count[OF config_lookup_env_a w] w show ?thesis
    by (simp add: scenario_eval)
qed

theorem main_tally_bound_witness:
  "\<exists>r. written (main cz_cfg env_a) = Some r \<and>
     n_true (pd_get id (feature_flags_counts r) ''betaFeature'' zero_counts) +
     n_false (pd_get id (feature_flags_counts r) ''betaFeature'' zero_counts) \<le> disabled_false_sites_count r"
proof -
  obtain r where w: "written (main cz_cfg env_a) = Some r" by (simp add: scenario_eval)
  have ok: "list_all (\<lambda>d. flags_ok (doc_flags (cfg_flags_field cz_cfg) d)) (config_coll env_a)"
    by (simp add: env_a_def cz_cfg_def)
  from main_tally_bound[OF ok w, of "''betaFeature''"] w show ?thesis by blast
qed

theorem main_total_ids_witness:
  "\<exists>r. written (main cz_cfg env_a) = Some r \<and> total_identical_ids r = 1"
proof -
  obtain r where w: "written (main cz_cfg env_a) = Some r" by (simp add: scenario_eval)
  from main_total_ids[OF w] w show ?thesis by (simp add: env_a_def)
qed

theorem main_closes_witness:
  "client_opened (main cz_cfg env_a) \<and> client_closed (main cz_cfg env_a)"
  using main_closes[of env_a cz_cfg] by (simp add: env_a_def)

theorem main_ping_failure_leaks_witness:
  "client_opened (main cz_cfg (env_a\<lparr>ping_exc := Some ConnectionFailure\<rparr>)) \<and>
   \<not> client_closed (main cz_cfg (env_a\<lparr>ping_exc := Some ConnectionFailure\<rparr>))"
  using main_ping_failure_leaks[of "env_a\<lparr>ping_exc := Some ConnectionFailure\<rparr>" ConnectionFailure cz_cfg]
  by (simp add: env_a_def)

theorem main_no_ids_witness:
  "main cz_cfg (env_a\<lparr>config_coll := []\<rparr>) =
     \<lparr>client_opened = True, client_closed = True, written = None, status = No_ids,
      run_fs = env_fs env_a,
      console = [Connected, Retrieving, Total_ids 0, No_ids_found, Connection_closed]\<rparr>"
  using main_no_ids[of "env_a\<lparr>config_coll := []\<rparr>" cz_cfg] by (simp add: env_a_def)

theorem main_written_iff_witness:
  "written (main cz_cfg env_a) \<noteq> None"
proof (rule main_written_iff[THEN iffD2])
  show "client_exc env_a = None \<and> ping_exc env_a = None \<and> sink_ok (cfg_output cz_cfg) (save_fault env_a) (env_fs env_a) \<and>
     (\<exists>lk. config_lookup cz_cfg env_a = Inr lk \<and> lk \<noteq> [] \<and> site_fault env_a = None \<and>
        refs_hashable (cfg_ref_field cz_cfg) (find_sites (cfg_ref_field cz_cfg) (map fst lk) (site_coll env_a)))"
    using config_lookup_env_a by (simp add: scenario_eval refs_hashable_def)
qed

theorem main_save_failure_witness:
  "status (main cz_cfg (env_a\<lparr>save_fault := Open_fails\<rparr>)) = Completed False \<and>
   written (main cz_cfg (env_a\<lparr>save_fault := Open_fails\<rparr>)) = None"
proof -
  have lk: "config_lookup cz_cfg (env_a\<lparr>save_fault := Open_fails\<rparr>) = Inr [(BStr ''id1'', BDoc [(''betaFeature'', BBool True)])]"
    by (simp add: scenario_eval)
  have h: "refs_hashable (cfg_ref_field cz_cfg)
      (find_sites (cfg_ref_field cz_cfg) (map fst [(BStr ''id1'', BDoc [(''betaFeature'', BBool True)])])
        (site_coll (env_a\<lparr>save_fault := Open_fails\<rparr>)))"
    by (simp add: scenario_eval refs_hashable_def)
  from main_save_failure[OF _ _ _ lk _ _ h] show ?thesis by (simp add: env_a_def sink_ok_def)
qed

theorem main_file_roundtrip_witness:
  "\<exists>r txt. written (main cz_cfg env_a) = Some r \<and>
     fs_files (run_fs (main cz_cfg env_a)) (cfg_output cz_cfg) = Some txt \<and>
     Option.bind (json_loads txt) report_of_json = Some r"
proof -
  obtain r where w: "written (main cz_cfg env_a) = Some r" by (simp add: scenario_eval)
  from main_file_roundtrip[OF w] w show ?thesis by blast
qed

lemma aggregate_env_a:
  "aggregate (cfg_ref_field cz_cfg) [(BStr ''id1'', BDoc [(''betaFeature'', BBool True)])]
     (site_cursor cz_cfg env_a [(BStr ''id1'', BDoc [(''betaFeature'', BBool True)])]) =
   Inr \<lparr>disabled_false_count = 1, feature_counts = [(''betaFeature'', \<lparr>n_true = 1, n_false = 0\<rparr>)],
        warnings = []\<rparr>"
  by (simp add: scenario_eval)

theorem main_partial_file_witness:
  "status (main cz_cfg (env_a\<lparr>save_fault := Write_fails 10\<rparr>)) = Completed False \<and>
   written (main cz_cfg (env_a\<lparr>save_fault := Write_fails 10\<rparr>)) = None \<and>
   fs_files (run_fs (main cz_cfg (env_a\<lparr>save_fault := Write_fails 10\<rparr>))) (cfg_output cz_cfg) \<noteq> None"
proof -
  let ?e = "env_a\<lparr>save_fault := Write_fails 10\<rparr>"
  have lk: "config_lookup cz_cfg ?e = Inr [(BStr ''id1'', BDoc [(''betaFeature'', BBool True)])]"
    by (simp add: scenario_eval)
  have agg: "aggregate (cfg_ref_field cz_cfg) [(BStr ''id1'', BDoc [(''betaFeature'', BBool True)])]
     (site_cursor cz_cfg ?e [(BStr ''id1'', BDoc [(''betaFeature'', BBool True)])]) =
   Inr \<lparr>disabled_false_count = 1, feature_counts = [(''betaFeature'', \<lparr>n_true = 1, n_false = 0\<rparr>)],
        warnings = []\<rparr>"
    using aggregate_env_a by (simp add: site_cursor_def)
  have op: "sink_open_ok (cfg_output cz_cfg) (env_fs ?e)"
    by (simp add: sink_eval env_a_def cz_cfg_def)
  from main_partial_file[OF _ _ lk _ agg _ op] show ?thesis by (simp add: env_a_def)
qed

theorem main_other_files_witness:
  "fs_files (run_fs (main cz_cfg env_a)) ''notes.txt'' = None"
proof -
  have "''notes.txt'' \<noteq> cfg_output cz_cfg" by (simp add: cz_cfg_def win_path_def)
  from main_other_files[OF this, of env_a] show ?thesis by (simp add: env_a_def)
qed

theorem main_order_independent_witness:
  "\<exists>r r'. written (main cz_cfg env_two) = Some r \<and>
     written (main cz_cfg (env_two\<lparr>site_coll := rev (site_coll env_two)\<rparr>)) = Some r' \<and>
     pd_get id (feature_flags_counts r') ''alpha'' zero_counts = pd_get id (feature_flags_counts r) ''alpha'' zero_counts"
proof -
  obtain r where w: "written (main cz_cfg env_two) = Some r" by (simp add: scenario_eval env_two_def)
  obtain r' where w': "written (main cz_cfg (env_two\<lparr>site_coll := rev (site_coll env_two)\<rparr>)) = Some r'"
    by (simp add: scenario_eval env_two_def)
  have m: "mset (rev (site_coll env_two)) = mset (site_coll env_two)" by simp
  from main_order_independent[OF m w w', of "''alpha''"] w w' show ?thesis by blast
qed

theorem main_report_keys_ok_witness:
  "\<exists>r. written (main cz_cfg env_two) = Some r \<and> keys_ok (report_json r)"
proof -
  obtain r where w: "written (main cz_cfg env_two) = Some r" by (simp add: scenario_eval env_two_def)
  from main_report_keys_ok[OF w] w show ?thesis by blast
qed

theorem main_console_completed_witness:
  "\<exists>r lk. written (main cz_cfg env_a) = Some r \<and> config_lookup cz_cfg env_a = Inr lk \<and>
     console (main cz_cfg env_a) =
       Connected # Retrieving # Total_ids (total_identical_ids r) # Querying # Processing #
       map Warn (concat (map (site_warnings (cfg_ref_field cz_cfg) lk)
                         (find_sites (cfg_ref_field cz_cfg) (map fst lk) (site_coll env_a)))) @
       [Created_directory (nt_dirname (cfg_output cz_cfg)),
        Saved_to (cfg_output cz_cfg), All_saved (cfg_output cz_cfg), Connection_closed]"
proof -
  obtain r where w: "written (main cz_cfg env_a) = Some r" by (simp add: scenario_eval)
  have d: "nt_dirname (cfg_output cz_cfg) \<noteq> [] \<and> \<not> path_exists (env_fs env_a) (nt_dirname (cfg_output cz_cfg))"
    by (simp add: sink_eval cz_cfg_def env_a_def)
  from main_console_completed[OF w] w d show ?thesis by auto
qed

theorem main_console_save_failure_witness:
  "\<exists>pre. console (main cz_cfg (env_a\<lparr>save_fault := Open_fails\<rparr>)) =
     pre @ [Save_failed (cfg_output cz_cfg), All_saved (cfg_output cz_cfg), Connection_closed]"
proof -
  have lk: "config_lookup cz_cfg (env_a\<lparr>save_fault := Open_fails\<rparr>) = Inr [(BStr ''id1'', BDoc [(''betaFeature'', BBool True)])]"
    by (simp add: scenario_eval)
  have h: "refs_hashable (cfg_ref_field cz_cfg)
      (find_sites (cfg_ref_field cz_cfg) (map fst [(BStr ''id1'', BDoc [(''betaFeature'', BBool True)])])
        (site_coll (env_a\<lparr>save_fault := Open_fails\<rparr>)))"
    by (simp add: scenario_eval refs_hashable_def)
  have n: "\<not> sink_ok (cfg_output cz_cfg) (save_fault (env_a\<lparr>save_fault := Open_fails\<rparr>))
      (env_fs (env_a\<lparr>save_fault := Open_fails\<rparr>))"
    by (simp add: sink_ok_def)
  from main_console_save_failure[OF _ _ n lk _ _ h] show ?thesis by (simp add: env_a_def)
qed

theorem main_idempotent_witness:
  "\<exists>r. written (main cz_cfg env_a) = Some r \<and>
     written (main cz_cfg (env_a\<lparr>env_fs := run_fs (main cz_cfg env_a)\<rparr>)) = Some r"
proof -
  obtain r where w: "written (main cz_cfg env_a) = Some r" by (simp add: scenario_eval)
  from main_idempotent[OF w] w show ?thesis by blast
qed

end
