(* ===== verification/Spec2Isabelle.thy ===== *)
theory Spec2Isabelle
  imports Pipeline
begin

text \<open>
  \<^bold>\<open>Feature-flag reconciliation scripts, modelled in HOL.\<close>

  The repository holds two near-identical Python scripts,
  \<^verbatim>\<open>src/PROD-CZFeaturesFlagsScript.py\<close> and \<^verbatim>\<open>src/PROD-WTFeaturesFlagsScript.py\<close>.
  Each connects to MongoDB, reads every document of a configuration collection
  (\<open>server_env\<close> with field \<open>FEATURES_FLAGS\<close>, or \<open>platform_server_api\<close> with
  \<open>WT_FEATURES_FLAGS\<close>) into a dict from \<open>_id\<close> to flags, queries the \<open>site\<close>
  collection for sites whose reference field (\<open>server_env_id\<close>, or
  \<open>platform_server_api_id\<close>) is one of the dict's keys and whose \<open>disabled\<close> is
  false, counts those sites and, per flag name, the sites whose configuration gives the
  flag the value true or false, and saves the counts as JSON. Data flows one way:
  store, lookup builder, join-and-aggregate loop, report, file.

  \<^bold>\<open>Theories.\<close>
  \<^item> \<open>Prelude\<close>: the named collections \<open>pydict_simps\<close> and \<open>agg_simps\<close>,
    \<open>first_occ\<close> (a list's elements in order of first occurrence) and generic lemmas
    on counting in lists.
  \<^item> \<open>Bson\<close>: the decoded BSON value \<open>bval\<close> (\<open>None\<close>, bool, int, str, ObjectId,
    list, dict), \<open>doc_get\<close> (\<open>dict.get\<close>), Python hashability \<open>py_hashable\<close> and
    Python key equality \<open>py_key\<close> (\<open>True == 1\<close>), \<open>is_bool\<close>
    (\<open>isinstance(v, bool)\<close>). A document is the list of its fields; documents with
    two fields of one name are outside the model (see below).
  \<^item> \<open>PyDict\<close>: a Python dict as an insertion-ordered association list searched by
    Python equality (\<open>pd_lookup\<close>, \<open>pd_get\<close> for \<open>d.get(k, default)\<close>,
    \<open>pd_setitem\<close> for \<open>d[k] = v\<close>), its invariant \<open>pd_wf\<close> and its abstraction
    \<open>pd_abs\<close> to a HOL map; \<open>pd_setitem\<close> refines map update, the library
    fact the lookup and aggregation proofs use.
  \<^item> \<open>Store\<close>: the pymongo side, an external collaborator modelled by its
    documented behaviour: the exception classes \<open>exc\<close>, a \<open>cursor\<close> that yields
    documents and may then raise (\<open>open_cursor\<close> cuts the result after \<open>n\<close>
    documents), projections, MongoDB's equality and \<open>$in\<close> matching (missing field
    as \<open>null\<close>, arrays matched element-wise) and the two \<open>find\<close> calls of lines 54
    and 72--78 (\<open>find_configs\<close>, \<open>find_sites\<close>, \<open>site_filter\<close>).
  \<^item> \<open>Lookup\<close>: lines 54--63, the loop \<open>build_lookup\<close> filling the id-to-flags
    dict, \<open>read_lookup\<close> for the whole cursor, and the specification
    \<open>lookup_spec\<close> (last document of an id class wins).
  \<^item> \<open>Aggregate\<close>: lines 80--106, the counters as the record \<open>agg\<close>, one flag
    (\<open>count_feature\<close>), one site's flags (\<open>count_features\<close>), one site
    (\<open>process_site\<close>), the loop (\<open>process_sites\<close>) and the loop over the cursor
    (\<open>aggregate\<close>); the warnings the code prints are kept as values. The
    specification \<open>votes\<close> counts the occurrences of \<open>(flag, True)\<close> and
    \<open>(flag, False)\<close> in the flag dicts of the delivered sites, and
    \<open>site_bool_flag_list\<close> the flags a site gives a boolean value.
  \<^item> \<open>Loop\<close>: the site loop as a process that can stop half-way: \<open>run_sites\<close> and
    \<open>run_cursor\<close> return the loop state with the exception that ended it (the
    warnings already printed depend on it), related to \<open>aggregate\<close>.
  \<^item> \<open>Console\<close>: every \<open>print\<close> as a constructor of \<open>msg\<close> with the values it
    interpolates, and the two \<open>except\<close> chains of \<open>main\<close> (\<open>connect_except\<close>,
    \<open>process_except\<close>) that choose a message by exception class.
  \<^item> \<open>Json\<close>: the text \<open>json.dump(..., indent=4)\<close> writes (line 152) for integers,
    strings and objects: \<open>json_escape\<close> (\<open>ensure_ascii\<close> escapes), \<open>nat_str\<close>,
    \<open>dump_val\<close>/\<open>dump_members\<close> with the four-space indentation; \<open>text_mode\<close>, the
    newline translation of the text-mode file \<open>open(filepath, "w")\<close> returns on
    Windows (line 151: each \<open>"\n"\<close> becomes \<open>"\r\n"\<close>); and the reader
    \<open>json_loads\<close>, a fuel-bounded parser for the same fragment, used only as the
    specification of the round trip.
  \<^item> \<open>Report\<close>: lines 109--113 and 132--155, the \<open>report\<close> record, its JSON value
    \<open>report_json\<close>, a file system \<open>fs\<close> (directories, file contents),
    \<open>nt_dirname\<close> (\<open>os.path.dirname\<close> on the Windows output path), \<open>makedirs\<close>,
    \<open>write_file\<close> (\<open>open(..., "w")\<close> truncates) and \<open>save_json\<close>, whose every
    raising call is a \<open>sink_fault\<close>, returning what it prints; the file receives
    \<open>text_mode\<close> of the JSON text, or a prefix of it when a write raises;
    \<open>sink_ok\<close> says when it succeeds.
  \<^item> \<open>Pipeline\<close>: lines 30--126, \<open>main\<close> over a \<open>pipeline_cfg\<close> (the CZ and WT
    scripts are \<open>main_cz\<close> and \<open>main_wt\<close>, with their output paths), an \<open>env\<close>
    giving both collections, every point where the driver or \<open>save_json\<close> can fail
    and the file system before the run, and a \<open>run\<close> recording client creation and
    closing, the report held by the output file, how the run ended, the file
    system after it (\<open>run_fs\<close>) and the console output (\<open>console\<close>).
  \<^item> This theory: properties that span the store, the loop and the pipeline.

  \<^bold>\<open>What is shown.\<close>
  The join-and-aggregate loop counts every delivered site exactly once, and each
  flag's true and false tallies equal the specification's votes (a functional
  refinement); for configuration flags that are dicts the tallies of a flag never
  exceed the site count; the tally keys are exactly the flags some site gives a boolean
  value, listed in the order in which the delivered sites first give them one; one
  warning is recorded per skipped flag or non-dict flag set; the loop
  fails exactly with a \<open>TypeError\<close> on an unhashable site reference or with the
  cursor's exception. The lookup is a well-formed dict refining
  \<open>lookup_spec\<close>, has one entry per document when ids differ under Python
  equality, and fails exactly on an unhashable id or a cursor exception. End to end,
  a written report carries the number of configuration id classes, the number of
  matched active sites and the vote counts; a report is written exactly when every
  stage succeeds; a client that answered the ping is always closed. The output file
  holds the report's JSON text with Windows line ends, parses back (\<open>json_loads\<close>,
  \<open>report_of_json\<close>) to exactly the written report, has no duplicate key at any
  level, and is the only file a run changes; \<open>save_json\<close> creates the directory and
  overwrites the file. The counts do not
  depend on the order the store delivers sites in, and a second run on the file system
  the first left rewrites the same bytes (the specification's idempotence). The
  console of a successful run is fixed message by message, with the warnings of the
  matched sites in delivery order.

  \<^bold>\<open>Bounds and fuel.\<close> Every loop of the scripts runs over a finite cursor, so every
  function is structurally recursive over a list and total; no fuel is needed. The
  reader \<open>json_loads\<close> is given the length of its input as fuel: each nesting level
  and each member costs one unit and at least one character, so printed text always
  has enough (\<open>jfuel\<close> bounds what is needed and is at most the text's length, which
  \<open>text_mode\<close> only lengthens).
  Python integers are unbounded and the counters only grow, so they are \<open>nat\<close>.

  \<^bold>\<open>Findings the theorems record.\<close> A failed ping returns from \<open>main\<close> with the
  client left open, although the specification asks for release on every exit path.
  A failed save still ends as a completed run that prints that the results were
  saved. A site whose reference field is an array holding a configuration id is
  matched by MongoDB and then crashes the run with \<open>TypeError\<close> at the dict
  lookup of line 90. Ids \<open>true\<close> and \<open>1\<close>, distinct in MongoDB, are one dict key in
  Python, so the lookup has one entry per id class under Python equality and can be
  smaller than the number of distinct ids. A site with
  no \<open>disabled\<close> field is never counted. \<open>open(filepath, "w")\<close> truncates the file
  before \<open>json.dump\<close> writes it, so a write that fails midway leaves a file that is not
  a report (the specification asks for an atomic write), while the run still ends as
  completed, and the console says both that the save failed and that all results
  have been saved; on success that line is printed twice. The flags in the file are
  in the order the sites first give them a boolean value, and MongoDB does not fix the
  delivery order without a sort, so equal data can give different bytes.

  \<^bold>\<open>Not modelled.\<close> Documents with two fields of the same name: MongoDB's query
  language is undefined on them, and pymongo's decoding keeps the last value where
  \<open>doc_get\<close> reads the first; on documents with distinct field names the two agree
  (\<open>doc_get_last\<close>). Floating-point values, among them a NaN \<open>_id\<close> (equal to
  itself in MongoDB, not in Python): the value type has none. The text of the exception objects the \<open>except\<close> clauses
  interpolate (a message carries the exception class), the connection string,
  credentials and the 5 s timeout (they only decide whether and how client creation
  and the ping raise, which the \<open>env\<close> gives), characters beyond one byte (strings are byte strings, so every
  \<open>ensure_ascii\<close> escape has the \<open>\u00xx\<close> form), UNC paths in \<open>ntpath\<close>, and the
  parent directories \<open>os.makedirs\<close> also creates (no property reads them). The
  \<open>FEATURES_FLAGS\<close> field projected from the site documents is fetched and never
  read, as in the code. The WT script's \<open>save_json\<close> and the rest of its body are
  line-for-line copies of the CZ script's and are modelled by the same definitions,
  instantiated with \<open>wt_cfg\<close>; the imports, the connection-string and database-name
  constants and the \<open>if __name__ == "__main__"\<close> guard carry no behaviour beyond what
  the \<open>env\<close> and \<open>main\<close> already give.
\<close>

definition env_array_ref :: env where
  "env_array_ref = env_a\<lparr>site_coll :=
     [[(''_id'', BOid 1), (''server_env_id'', BArr [BStr ''id1'']), (''disabled'', BBool False)]]\<rparr>"

text \<open>C20: a matched site whose reference field is unhashable (an array holding a configuration
  id) ends the run with a TypeError and no report.\<close>

theorem main_unhashable_ref_fails:
  assumes "client_exc e = None" and "ping_exc e = None"
    and "config_lookup c e = Inr lk" and "lk \<noteq> []" and "site_fault e = None"
    and "s \<in> set (site_coll e)" and "site_filter (cfg_ref_field c) (map fst lk) s"
    and "\<not> py_hashable (site_ref (cfg_ref_field c) s)"
  shows "status (main c e) = Processing_failed TypeError \<and> written (main c e) = None \<and>
         client_closed (main c e)"
proof -
  let ?ss = "find_sites (cfg_ref_field c) (map fst lk) (site_coll e)"
  let ?s' = "project [cfg_ref_field c, ''FEATURES_FLAGS''] s"
  have "?s' \<in> set ?ss"
    using assms(6,7) by (simp add: find_sites_def)
  moreover have "site_ref (cfg_ref_field c) ?s' = site_ref (cfg_ref_field c) s"
    by (simp add: site_ref_def)
  ultimately have "\<not> refs_hashable (cfg_ref_field c) ?ss"
    using assms(8) unfolding refs_hashable_def list_all_iff by metis
  then obtain ex where p: "process_sites (cfg_ref_field c) lk agg_init ?ss = Inl ex"
    using process_sites_Inr_iff by (metis sumE)
  then have "aggregate (cfg_ref_field c) lk (site_cursor c e lk) = Inl TypeError"
    using assms(5) process_sites_Inl[OF p] by (simp add: aggregate_def site_cursor_def open_cursor_ok)
  then obtain st where "run_cursor (cfg_ref_field c) lk (site_cursor c e lk) = (st, Some TypeError)"
    using run_cursor_Some_iff by blast
  with assms(1-4) show ?thesis by (simp add: main_failed)
qed

theorem main_unhashable_ref_fails_witness:
  "status (main cz_cfg env_array_ref) = Processing_failed TypeError"
proof -
  have lk: "config_lookup cz_cfg env_array_ref = Inr [(BStr ''id1'', BDoc [(''betaFeature'', BBool True)])]"
    by (simp add: scenario_eval env_array_ref_def)
  show ?thesis
  proof (rule main_unhashable_ref_fails[OF _ _ lk, THEN conjunct1])
    show "[(''_id'', BOid 1), (''server_env_id'', BArr [BStr ''id1'']), (''disabled'', BBool False)]
          \<in> set (site_coll env_array_ref)"
      by (simp add: env_array_ref_def)
  qed (simp_all add: scenario_eval env_array_ref_def)
qed

end
